theory Spec2Isabelle
  imports Complex_Main "HOL-Library.Sublist"
begin

section \<open>Python values and exceptions\<close>

text \<open>
  The scraper works on whatever \<^verbatim>\<open>resp.json()\<close> hands back, so events are JSON values
  as Python sees them: \<^verbatim>\<open>None\<close>, booleans, numbers, strings, lists and dicts. A dict is an
  association list in insertion order (keys of a Python dict are distinct; lookup takes
  the first binding). A number is kept by its mathematical value, which is all that
  truthiness and \<^verbatim>\<open>==\<close> look at (the non-finite floats are left out).
\<close>

datatype json =
    JNull
  | JBool bool
  | JNum rat
  | JStr string
  | JArr "json list"
  | JObj "(string \<times> json) list"

text \<open>
  The exceptions the script can meet. \<open>RuntimeError\<close> carries the message the script
  builds itself; the built-in ones carry none (their wording belongs to the interpreter).
\<close>

datatype py_exception =
    RuntimeError string
  | AttributeError
  | TypeError
  | ValueError
  | KeyError
  | OverflowError

type_synonym 'a result = "py_exception + 'a"

definition ebind :: "'a result \<Rightarrow> ('a \<Rightarrow> 'b result) \<Rightarrow> 'b result" where
  "ebind m f = (case m of Inl x \<Rightarrow> Inl x | Inr v \<Rightarrow> f v)"

text \<open>Python truthiness (\<^verbatim>\<open>if x\<close>, \<^verbatim>\<open>not x\<close>, \<^verbatim>\<open>x or y\<close>).\<close>

fun truthy :: "json \<Rightarrow> bool" where
  "truthy JNull = False"
| "truthy (JBool b) = b"
| "truthy (JNum r) = (r \<noteq> 0)"
| "truthy (JStr s) = (s \<noteq> [])"
| "truthy (JArr xs) = (xs \<noteq> [])"
| "truthy (JObj kvs) = (kvs \<noteq> [])"

definition py_or :: "json \<Rightarrow> json \<Rightarrow> json" where
  "py_or x d = (if truthy x then x else d)"

text \<open>\<^verbatim>\<open>x.get(k)\<close>: only a dict has the method; a missing key gives \<^verbatim>\<open>None\<close>.\<close>

fun dict_get :: "json \<Rightarrow> string \<Rightarrow> json result" where
  "dict_get (JObj kvs) k = Inr (case map_of kvs k of None \<Rightarrow> JNull | Some v \<Rightarrow> v)"
| "dict_get _ k = Inl AttributeError"

text \<open>\<^verbatim>\<open>x.get(k, d)\<close>: the default stands in only for a missing key.\<close>

fun dict_get_default :: "json \<Rightarrow> string \<Rightarrow> json \<Rightarrow> json result" where
  "dict_get_default (JObj kvs) k d = Inr (case map_of kvs k of None \<Rightarrow> d | Some v \<Rightarrow> v)"
| "dict_get_default _ k d = Inl AttributeError"

text \<open>Iterating a value, as \<^verbatim>\<open>list.extend\<close> does: a list gives its items, a string its
  characters, a dict its keys; anything else is not iterable.\<close>

fun py_iter :: "json \<Rightarrow> json list result" where
  "py_iter (JArr xs) = Inr xs"
| "py_iter (JStr s) = Inr (map (\<lambda>c. JStr [c]) s)"
| "py_iter (JObj kvs) = Inr (map (\<lambda>kv. JStr (fst kv)) kvs)"
| "py_iter _ = Inl TypeError"

subsection \<open>Decimal text of an integer\<close>

definition digit_char :: "nat \<Rightarrow> char" where
  "digit_char d = char_of (48 + d)"

fun digits :: "nat \<Rightarrow> string" where
  "digits n = (if n < 10 then [digit_char n] else digits (n div 10) @ [digit_char (n mod 10)])"

declare digits.simps [simp del]

definition str_int :: "int \<Rightarrow> string" where
  "str_int i = (if i < 0 then CHR ''-'' # digits (nat (- i)) else digits (nat i))"

section \<open>Configuration\<close>

definition API_BASE :: string where
  "API_BASE = ''https://www.eventbriteapi.com/v3''"

definition OUT_JSON :: string where
  "OUT_JSON = ''events.json''"

definition OUT_MD :: string where
  "OUT_MD = ''events.md''"

definition DEFAULT_STATES :: "string list" where
  "DEFAULT_STATES = [''Montana'', ''Wyoming'']"

text \<open>
  The values the module reads from the environment when it is loaded, and the two it
  reads later (\<open>token\<close> in \<^verbatim>\<open>get_token\<close>, \<open>user_agent\<close> in \<^verbatim>\<open>fetch_events\<close>).
\<close>

record config =
  DEFAULT_QUERY :: string
  DEFAULT_WITHIN :: string
  LOOKAHEAD_DAYS :: int
  PAGE_DELAY_SEC :: rat
  user_agent :: string
  token :: "string option"

section \<open>Normalizer\<close>

definition normalize_event :: "json \<Rightarrow> json result" where
  "normalize_event e =
     ebind (dict_get e ''venue'') (\<lambda>v0. let venue = py_or v0 (JObj []) in
     ebind (dict_get venue ''address'') (\<lambda>a0. let address = py_or a0 (JObj []) in
     ebind (dict_get e ''id'') (\<lambda>f_id.
     ebind (dict_get e ''name'') (\<lambda>n0.
     ebind (dict_get (py_or n0 (JObj [])) ''text'') (\<lambda>f_name.
     ebind (dict_get e ''url'') (\<lambda>f_url.
     ebind (dict_get e ''start'') (\<lambda>s0.
     ebind (dict_get (py_or s0 (JObj [])) ''local'') (\<lambda>f_start.
     ebind (dict_get e ''end'') (\<lambda>e0.
     ebind (dict_get (py_or e0 (JObj [])) ''local'') (\<lambda>f_end.
     ebind (dict_get e ''is_free'') (\<lambda>f_is_free.
     ebind (dict_get e ''status'') (\<lambda>f_status.
     ebind (dict_get address ''city'') (\<lambda>f_city.
     ebind (dict_get address ''region'') (\<lambda>f_state.
     ebind (dict_get venue ''name'') (\<lambda>f_venue_name.
     ebind (dict_get address ''localized_address_display'') (\<lambda>f_address.
     Inr (JObj
       [(''id'', f_id), (''name'', f_name), (''url'', f_url), (''start'', f_start),
        (''end'', f_end), (''is_free'', f_is_free), (''status'', f_status),
        (''city'', f_city), (''state'', f_state), (''venue_name'', f_venue_name),
        (''address'', f_address)])))))))))))))))))"

text \<open>The loop of \<^verbatim>\<open>normalize_events\<close>, with its accumulator \<^verbatim>\<open>normalized\<close>.\<close>

fun normalize_loop :: "json list \<Rightarrow> json list \<Rightarrow> json list result" where
  "normalize_loop normalized [] = Inr normalized"
| "normalize_loop normalized (e # es) =
     (case normalize_event e of
        Inl x \<Rightarrow> Inl x
      | Inr n \<Rightarrow> normalize_loop (normalized @ [n]) es)"

definition normalize_events :: "json list \<Rightarrow> json list result" where
  "normalize_events events = normalize_loop [] events"

section \<open>Window filter\<close>

text \<open>
  A naive \<^verbatim>\<open>datetime\<close> is its distance in microseconds from \<^verbatim>\<open>datetime.min\<close>
  (0001-01-01T00:00:00); the type ends at 9999-12-31T23:59:59.999999.
\<close>

definition MICROS_PER_DAY :: int where
  "MICROS_PER_DAY = 86400000000"

definition DATETIME_MAX :: int where
  "DATETIME_MAX = 3652059 * 86400000000 - 1"

text \<open>\<^verbatim>\<open>timedelta(days=d)\<close> refuses more than 999999999 days either way.\<close>

definition timedelta_days :: "int \<Rightarrow> int result" where
  "timedelta_days d =
     (if d < - 999999999 \<or> 999999999 < d then Inl OverflowError else Inr (d * MICROS_PER_DAY))"

text \<open>\<^verbatim>\<open>now + delta\<close> refuses a sum outside the type's range.\<close>

definition datetime_add :: "int \<Rightarrow> int \<Rightarrow> int result" where
  "datetime_add t delta =
     (if t + delta < 0 \<or> DATETIME_MAX < t + delta then Inl OverflowError else Inr (t + delta))"

text \<open>
  What \<^verbatim>\<open>datetime.fromisoformat\<close> can do with a string: raise \<^verbatim>\<open>ValueError\<close>, give a
  naive timestamp, or give an aware one (wall-clock reading and UTC offset, both in
  microseconds). The parser is the interpreter's; the filter takes it as a parameter.
\<close>

datatype iso_result =
    IsoValueError
  | IsoNaive int
  | IsoAware int int

fun filter_loop ::
  "(string \<Rightarrow> iso_result) \<Rightarrow> int \<Rightarrow> int \<Rightarrow> json list \<Rightarrow> json list \<Rightarrow> json list result" where
  "filter_loop parse now cutoff filtered [] = Inr filtered"
| "filter_loop parse now cutoff filtered (e # es) =
     (case dict_get e ''start'' of
        Inl x \<Rightarrow> Inl x
      | Inr start \<Rightarrow>
          if \<not> truthy start then filter_loop parse now cutoff filtered es
          else (case start of
                  JStr s \<Rightarrow>
                    (case parse s of
                       IsoValueError \<Rightarrow> filter_loop parse now cutoff filtered es
                     | IsoNaive dt \<Rightarrow>
                         if now \<le> dt \<and> dt \<le> cutoff
                         then filter_loop parse now cutoff (filtered @ [e]) es
                         else filter_loop parse now cutoff filtered es
                     | IsoAware dt off \<Rightarrow> Inl TypeError)
                | _ \<Rightarrow> Inl TypeError))"

text \<open>\<open>now\<close> is the reading of \<^verbatim>\<open>datetime.utcnow()\<close> at the call.\<close>

definition filter_upcoming ::
  "(string \<Rightarrow> iso_result) \<Rightarrow> int \<Rightarrow> json list \<Rightarrow> int \<Rightarrow> json list result" where
  "filter_upcoming parse now events days =
     ebind (timedelta_days days) (\<lambda>delta.
     ebind (datetime_add now delta) (\<lambda>cutoff.
     filter_loop parse now cutoff [] events))"

section \<open>Deduplicator\<close>

text \<open>
  A set of tuples finds a key by hash and \<^verbatim>\<open>==\<close>. Lists and dicts are unhashable; on the
  hashable values \<^verbatim>\<open>==\<close> is equality of the value, with \<^verbatim>\<open>True\<close> and \<^verbatim>\<open>False\<close>
  counting as the numbers 1 and 0. \<open>hkey\<close> is a hashable value up to \<^verbatim>\<open>==\<close>.
\<close>

datatype hkey = HNone | HNum rat | HStr string

fun py_hashable :: "json \<Rightarrow> hkey result" where
  "py_hashable JNull = Inr HNone"
| "py_hashable (JBool b) = Inr (HNum (if b then 1 else 0))"
| "py_hashable (JNum r) = Inr (HNum r)"
| "py_hashable (JStr s) = Inr (HStr s)"
| "py_hashable (JArr xs) = Inl TypeError"
| "py_hashable (JObj kvs) = Inl TypeError"

text \<open>\<^verbatim>\<open>key = (e.get("name"), e.get("start"))\<close>, then hashed for the membership test.\<close>

definition event_key :: "json \<Rightarrow> (hkey \<times> hkey) result" where
  "event_key e =
     ebind (dict_get e ''name'') (\<lambda>n.
     ebind (dict_get e ''start'') (\<lambda>s.
     ebind (py_hashable n) (\<lambda>hn.
     ebind (py_hashable s) (\<lambda>hs. Inr (hn, hs)))))"

fun dedup_loop :: "(hkey \<times> hkey) set \<Rightarrow> json list \<Rightarrow> json list \<Rightarrow> json list result" where
  "dedup_loop seen unique [] = Inr unique"
| "dedup_loop seen unique (e # es) =
     (case event_key e of
        Inl x \<Rightarrow> Inl x
      | Inr key \<Rightarrow>
          if key \<in> seen then dedup_loop seen unique es
          else dedup_loop (insert key seen) (unique @ [e]) es)"

definition deduplicate :: "json list \<Rightarrow> json list result" where
  "deduplicate upcoming = dedup_loop {} [] upcoming"

section \<open>The network\<close>

record headers =
  Authorization :: string
  Accept :: string
  User_Agent :: string

record search_params =
  q :: string
  location_address :: string
  location_within :: string
  expand :: string
  sort_by :: string
  page :: int

record request =
  url :: string
  req_headers :: headers
  params :: "search_params option"
  timeout :: nat

text \<open>
  What the script observes of a response: the status, the text of the body, and what
  \<^verbatim>\<open>resp.json()\<close> gives (\<open>None\<close> when it raises \<^verbatim>\<open>ValueError\<close>).
\<close>

record http_response =
  status_code :: int
  body_text :: string
  body_json :: "json option"

text \<open>\<^verbatim>\<open>session.get\<close> either raises a \<^verbatim>\<open>RequestException\<close> (with its text) or returns.\<close>

datatype response = RequestException string | Response http_response

text \<open>
  The outside world answers each request; a run never sends the same request twice
  (pages grow within a region, regions differ), so a function of the request covers
  every run.
\<close>

type_synonym network = "request \<Rightarrow> response"

section \<open>Effects\<close>

datatype file_content = JsonDump json | PlainText string

datatype effect =
    NetGet request
  | Sleep rat
  | Print string
  | PrintErr string
  | MakeDirs string
  | WriteFile string file_content

text \<open>The content of a file after a trace: its last write.\<close>

fun file_after :: "effect list \<Rightarrow> string \<Rightarrow> file_content option" where
  "file_after [] path = None"
| "file_after (x # xs) path =
     (case file_after xs path of
        Some c \<Rightarrow> Some c
      | None \<Rightarrow> (case x of WriteFile p c \<Rightarrow> if p = path then Some c else None | _ \<Rightarrow> None))"

fun is_request :: "effect \<Rightarrow> bool" where
  "is_request (NetGet r) = True"
| "is_request _ = False"

section \<open>Token gate\<close>

text \<open>\<^verbatim>\<open>session.get(url, headers=headers, timeout=15)\<close>.\<close>

definition identity_request :: "headers \<Rightarrow> request" where
  "identity_request hdrs =
     \<lparr>url = API_BASE @ ''/users/me/'', req_headers = hdrs, params = None, timeout = 15\<rparr>"

definition validate_token :: "network \<Rightarrow> headers \<Rightarrow> effect list \<times> unit result" where
  "validate_token net hdrs =
     (let req = identity_request hdrs
      in ([NetGet req],
          case net req of
            RequestException exc \<Rightarrow>
              Inl (RuntimeError (''token_validation_request_error:'' @ exc))
          | Response resp \<Rightarrow>
              if status_code resp = 200 then Inr ()
              else if status_code resp = 401 \<or> status_code resp = 403 then
                Inl (RuntimeError (''token_invalid_or_forbidden:http_'' @ str_int (status_code resp)
                       @ '':'' @ take 256 (body_text resp)))
              else if status_code resp = 429 then
                Inl (RuntimeError (''rate_limited_on_token_validation:http_429:''
                       @ take 256 (body_text resp)))
              else
                Inl (RuntimeError (''token_validation_http_error:http_'' @ str_int (status_code resp)
                       @ '':'' @ take 256 (body_text resp)))))"

section \<open>Region searcher\<close>

text \<open>
  What the loop takes from a decoded body: the items \<^verbatim>\<open>results.extend\<close> appends and
  whether \<^verbatim>\<open>has_more_items\<close> is truthy.
\<close>

definition page_content :: "json \<Rightarrow> (json list \<times> bool) result" where
  "page_content data =
     ebind (dict_get data ''events'') (\<lambda>ev.
     ebind (py_iter (py_or ev (JArr []))) (\<lambda>items.
     ebind (dict_get_default data ''pagination'' (JObj [])) (\<lambda>pg.
     ebind (dict_get pg ''has_more_items'') (\<lambda>flag.
     Inr (items, truthy flag)))))"

text \<open>
  The \<^verbatim>\<open>while True\<close> loop. Nothing bounds the number of pages, so the loop is a partial
  function: \<open>None\<close> is a run that never leaves it. \<^verbatim>\<open>time.sleep\<close> raises
  \<^verbatim>\<open>ValueError\<close> on a negative delay.
\<close>

text \<open>\<^verbatim>\<open>session.get(url, headers=headers, params=params, timeout=30)\<close>.\<close>

definition search_request :: "headers \<Rightarrow> search_params \<Rightarrow> request" where
  "search_request hdrs ps =
     \<lparr>url = API_BASE @ ''/events/search'', req_headers = hdrs, params = Some ps, timeout = 30\<rparr>"

partial_function (option) search_loop ::
  "network \<Rightarrow> rat \<Rightarrow> headers \<Rightarrow> search_params \<Rightarrow> json list \<Rightarrow> string list \<Rightarrow> effect list
     \<Rightarrow> (effect list \<times> (json list \<times> string list) result) option" where
  "search_loop net delay hdrs ps results warnings tr =
     (case net (search_request hdrs ps) of
        RequestException exc \<Rightarrow>
          Some (tr @ [NetGet (search_request hdrs ps)],
                Inr (results, warnings @ [''request_error:'' @ location_address ps @ '':'' @ exc]))
      | Response resp \<Rightarrow>
          if status_code resp = 404 then
            Some (tr @ [NetGet (search_request hdrs ps)],
                  Inr (results, warnings @ [''404:'' @ location_address ps @ '':''
                         @ take 256 (body_text resp)]))
          else if status_code resp = 401 \<or> status_code resp = 403 then
            Some (tr @ [NetGet (search_request hdrs ps)],
                  Inr (results, warnings @ [''auth_error_http_'' @ str_int (status_code resp)
                         @ '':'' @ location_address ps @ '':'' @ take 256 (body_text resp)]))
          else if status_code resp = 429 then
            Some (tr @ [NetGet (search_request hdrs ps)],
                  Inr (results, warnings @ [''rate_limited_http_429:'' @ location_address ps
                         @ '':'' @ take 256 (body_text resp)]))
          else if status_code resp \<noteq> 200 then
            Some (tr @ [NetGet (search_request hdrs ps)],
                  Inr (results, warnings @ [''http_'' @ str_int (status_code resp) @ '':''
                         @ location_address ps @ '':'' @ take 256 (body_text resp)]))
          else
            (case body_json resp of
               None \<Rightarrow>
                 Some (tr @ [NetGet (search_request hdrs ps)],
                       Inr (results, warnings @ [''invalid_json_response:'' @ location_address ps
                              @ '':'' @ take 256 (body_text resp)]))
             | Some data \<Rightarrow>
                 (case page_content data of
                    Inl x \<Rightarrow>
                      Some (tr @ [NetGet (search_request hdrs ps)],
                            Inl x)
                  | Inr (items, has_more) \<Rightarrow>
                      if \<not> has_more then
                        Some (tr @ [NetGet (search_request hdrs ps)],
                              Inr (results @ items, warnings))
                      else if delay < 0 then
                        Some (tr @ [NetGet (search_request hdrs ps)],
                              Inl ValueError)
                      else
                        search_loop net delay hdrs (ps\<lparr>page := page ps + 1\<rparr>)
                          (results @ items) warnings
                          (tr @ [NetGet (search_request hdrs ps),
                                 Sleep delay]))))"

definition search_region ::
  "network \<Rightarrow> rat \<Rightarrow> headers \<Rightarrow> string \<Rightarrow> string \<Rightarrow> string
     \<Rightarrow> (effect list \<times> (json list \<times> string list) result) option" where
  "search_region net delay hdrs query location within' =
     search_loop net delay hdrs
       \<lparr>q = query, location_address = location, location_within = within',
        expand = ''venue'', sort_by = ''date'', page = 1\<rparr> [] [] []"

section \<open>Report writer\<close>

text \<open>\<^verbatim>\<open>os.path.dirname\<close> on a POSIX path.\<close>

definition os_path_dirname :: "string \<Rightarrow> string" where
  "os_path_dirname p =
     (let h = rev (dropWhile (\<lambda>c. c \<noteq> CHR ''/'') (rev p))
      in if h \<noteq> [] \<and> (\<exists>c \<in> set h. c \<noteq> CHR ''/'')
         then rev (dropWhile (\<lambda>c. c = CHR ''/'') (rev h)) else h)"

text \<open>\<^verbatim>\<open>json.dump\<close> is the library's: the file holds the dump of the payload.\<close>

definition save_json :: "json \<Rightarrow> string \<Rightarrow> effect list" where
  "save_json payload path =
     [MakeDirs (if os_path_dirname path \<noteq> [] then os_path_dirname path else ''.''),
      WriteFile path (JsonDump payload)]"

definition NL :: char where
  "NL = CHR 0x0A"

fun join_strs :: "string \<Rightarrow> string list \<Rightarrow> string" where
  "join_strs sep [] = []"
| "join_strs sep [s] = s"
| "join_strs sep (s # t # ss) = s @ sep @ join_strs sep (t # ss)"

fun is_str :: "json \<Rightarrow> bool" where
  "is_str (JStr s) = True"
| "is_str _ = False"

fun str_of :: "json \<Rightarrow> string" where
  "str_of (JStr s) = s"
| "str_of _ = []"

text \<open>\<^verbatim>\<open>sep.join(parts)\<close> wants strings only.\<close>

definition py_join :: "string \<Rightarrow> json list \<Rightarrow> string result" where
  "py_join sep parts =
     (if list_all is_str parts then Inr (join_strs sep (map str_of parts)) else Inl TypeError)"

text \<open>
  A value inside an f-string: a string stands for itself; the text of any other value
  is the interpreter's \<^verbatim>\<open>str()\<close>, taken as the parameter \<open>py_str\<close>.
\<close>

definition fmt :: "(json \<Rightarrow> string) \<Rightarrow> json \<Rightarrow> string" where
  "fmt py_str v = (case v of JStr s \<Rightarrow> s | _ \<Rightarrow> py_str v)"

text \<open>\<^verbatim>\<open>start.replace("T", " ").replace("Z", "")\<close>.\<close>

definition start_format :: "string \<Rightarrow> string" where
  "start_format s =
     filter (\<lambda>c. c \<noteq> CHR ''Z'') (map (\<lambda>c. if c = CHR ''T'' then CHR '' '' else c) s)"

definition loc_parts :: "json \<Rightarrow> json list result" where
  "loc_parts e =
     ebind (dict_get e ''venue_name'') (\<lambda>v.
     ebind (dict_get e ''address'') (\<lambda>a.
     ebind (dict_get e ''city'') (\<lambda>c.
     ebind (dict_get e ''state'') (\<lambda>s.
     Inr (filter truthy [v, a, c, s])))))"

text \<open>The lines one event adds to \<^verbatim>\<open>lines\<close>.\<close>

definition event_lines :: "(json \<Rightarrow> string) \<Rightarrow> json \<Rightarrow> string list result" where
  "event_lines py_str e =
     ebind (dict_get e ''name'') (\<lambda>n0. let name = py_or n0 (JStr ''Unnamed Event'') in
     ebind (dict_get e ''start'') (\<lambda>s0. let start = py_or s0 (JStr []) in
     ebind (if truthy start
            then (case start of JStr s \<Rightarrow> Inr (start_format s) | _ \<Rightarrow> Inl AttributeError)
            else Inr []) (\<lambda>start_fmt.
     ebind (loc_parts e) (\<lambda>parts.
     ebind (if parts \<noteq> []
            then ebind (py_join '', '' parts) (\<lambda>j. Inr [''- **Location:** '' @ j @ [NL]])
            else Inr []) (\<lambda>loc_line.
     ebind (dict_get e ''url'') (\<lambda>u.
     Inr ([''## '' @ fmt py_str name @ [NL]]
          @ (if start_fmt \<noteq> [] then [''- **Date:** '' @ start_fmt @ [NL]] else [])
          @ loc_line
          @ (if truthy u
             then [''- **Sign up:** ['' @ fmt py_str u @ '']('' @ fmt py_str u @ '')'' @ [NL]]
             else [])
          @ [[]])))))))"

fun events_lines :: "(json \<Rightarrow> string) \<Rightarrow> string list \<Rightarrow> json list \<Rightarrow> string list result" where
  "events_lines py_str lines [] = Inr lines"
| "events_lines py_str lines (e # es) =
     (case event_lines py_str e of
        Inl x \<Rightarrow> Inl x
      | Inr ls \<Rightarrow> events_lines py_str (lines @ ls) es)"

definition markdown_lines :: "(json \<Rightarrow> string) \<Rightarrow> int \<Rightarrow> json \<Rightarrow> string list result" where
  "markdown_lines py_str days events =
     (if \<not> truthy events
      then Inr [''# Upcoming Veteran Events in Montana and Wyoming'' @ [NL],
                ''No events found within the next '' @ str_int days @ '' days.'' @ [NL]]
      else ebind (py_iter events)
             (events_lines py_str [''# Upcoming Veteran Events in Montana and Wyoming'' @ [NL]]))"

text \<open>The file is opened only once every line is built.\<close>

definition save_markdown ::
  "(json \<Rightarrow> string) \<Rightarrow> int \<Rightarrow> json \<Rightarrow> string \<Rightarrow> effect list \<times> unit result" where
  "save_markdown py_str days events path =
     (case markdown_lines py_str days events of
        Inl x \<Rightarrow> ([], Inl x)
      | Inr lines \<Rightarrow> ([WriteFile path (PlainText (join_strs [NL] lines))], Inr ()))"

section \<open>Orchestrator\<close>

text \<open>How a call ends: it returns a value, raises an exception, or raises
  \<^verbatim>\<open>SystemExit\<close> with a status.\<close>

datatype 'a ending = Returns 'a | Raises py_exception | SystemExit int

definition failure_payload :: "string \<Rightarrow> json" where
  "failure_payload msg = JObj [(''generated'', JBool False), (''error'', JStr msg)]"

definition get_token :: "(json \<Rightarrow> string) \<Rightarrow> config \<Rightarrow> effect list \<times> string ending" where
  "get_token py_str cfg =
     (if token cfg = None \<or> token cfg = Some []
      then (case save_markdown py_str (LOOKAHEAD_DAYS cfg) (JArr []) OUT_MD of
              (tr, Inl x) \<Rightarrow>
                (save_json (failure_payload ''EVENTBRITE_TOKEN is not set'') OUT_JSON @ tr, Raises x)
            | (tr, Inr u) \<Rightarrow>
                (save_json (failure_payload ''EVENTBRITE_TOKEN is not set'') OUT_JSON @ tr,
                 SystemExit 2))
      else ([], Returns (the (token cfg))))"

text \<open>The loop over the regions, with its two accumulators.\<close>

fun regions_loop ::
  "network \<Rightarrow> rat \<Rightarrow> headers \<Rightarrow> string \<Rightarrow> string \<Rightarrow> string list \<Rightarrow> json list \<Rightarrow> string list
     \<Rightarrow> effect list \<Rightarrow> (effect list \<times> (json list \<times> string list) result) option" where
  "regions_loop net delay hdrs query within' [] all_raw all_warnings tr =
     Some (tr, Inr (all_raw, all_warnings))"
| "regions_loop net delay hdrs query within' (state # states) all_raw all_warnings tr =
     (case search_region net delay hdrs query state within' of
        None \<Rightarrow> None
      | Some (tr', Inl x) \<Rightarrow> Some (tr @ tr', Inl x)
      | Some (tr', Inr (events, warns)) \<Rightarrow>
          regions_loop net delay hdrs query within' states
            (all_raw @ events) (all_warnings @ warns) (tr @ tr'))"

text \<open>The headers \<^verbatim>\<open>fetch_events\<close> sends with every request.\<close>

definition run_headers :: "config \<Rightarrow> string \<Rightarrow> headers" where
  "run_headers cfg tok =
     \<lparr>Authorization = ''Bearer '' @ tok, Accept = ''application/json'',
      User_Agent = user_agent cfg\<rparr>"

definition success_payload ::
  "string \<Rightarrow> string list \<Rightarrow> string \<Rightarrow> json list \<Rightarrow> string list \<Rightarrow> json" where
  "success_payload query states within' unique all_warnings =
     JObj [(''generated'', JBool True),
           (''source'', JStr ''eventbrite''),
           (''query'', JStr query),
           (''regions'', JArr (map JStr states)),
           (''within'', JStr within'),
           (''count'', JNum (of_nat (length unique))),
           (''events'', JArr unique),
           (''warnings'', JArr (map JStr all_warnings))]"

text \<open>
  \<open>parse\<close> is \<^verbatim>\<open>datetime.fromisoformat\<close>, \<open>now\<close> the clock when the filter runs;
  \<open>states = None\<close> is the default argument.
\<close>

definition fetch_events ::
  "(string \<Rightarrow> iso_result) \<Rightarrow> int \<Rightarrow> network \<Rightarrow> config \<Rightarrow> string \<Rightarrow> string
     \<Rightarrow> string list option \<Rightarrow> string \<Rightarrow> (effect list \<times> json result) option" where
  "fetch_events parse now net cfg tok query states_opt within' =
     (let states = (case states_opt of None \<Rightarrow> DEFAULT_STATES | Some ss \<Rightarrow> ss);
          hdrs = run_headers cfg tok
      in case validate_token net hdrs of
           (tr0, Inl x) \<Rightarrow> Some (tr0, Inl x)
         | (tr0, Inr u) \<Rightarrow>
             (case regions_loop net (PAGE_DELAY_SEC cfg) hdrs query within' states [] [] tr0 of
                None \<Rightarrow> None
              | Some (tr1, Inl x) \<Rightarrow> Some (tr1, Inl x)
              | Some (tr1, Inr (all_raw, all_warnings)) \<Rightarrow>
                  Some (tr1,
                    ebind (normalize_events all_raw) (\<lambda>normalized.
                    ebind (filter_upcoming parse now normalized (LOOKAHEAD_DAYS cfg)) (\<lambda>upcoming.
                    ebind (deduplicate upcoming) (\<lambda>unique.
                    Inr (success_payload query states within' unique all_warnings)))))))"

text \<open>\<^verbatim>\<open>payload['count']\<close>.\<close>

fun dict_item :: "json \<Rightarrow> string \<Rightarrow> json result" where
  "dict_item (JObj kvs) k = (case map_of kvs k of None \<Rightarrow> Inl KeyError | Some v \<Rightarrow> Inr v)"
| "dict_item _ k = Inl TypeError"

text \<open>\<^verbatim>\<open>str(exc)\<close>: the script's own message, or the interpreter's for a built-in one.\<close>

definition str_exc :: "(py_exception \<Rightarrow> string) \<Rightarrow> py_exception \<Rightarrow> string" where
  "str_exc exc_msg x = (case x of RuntimeError m \<Rightarrow> m | _ \<Rightarrow> exc_msg x)"

text \<open>The \<^verbatim>\<open>except Exception\<close> branch of \<^verbatim>\<open>main\<close>, entered after the trace \<open>tr\<close>.\<close>

definition on_exception ::
  "(json \<Rightarrow> string) \<Rightarrow> (py_exception \<Rightarrow> string) \<Rightarrow> config \<Rightarrow> effect list \<Rightarrow> py_exception
     \<Rightarrow> effect list \<times> int ending" where
  "on_exception py_str exc_msg cfg tr x =
     (case save_markdown py_str (LOOKAHEAD_DAYS cfg) (JArr []) OUT_MD of
        (trm, Inl y) \<Rightarrow>
          (tr @ save_json (failure_payload (str_exc exc_msg x)) OUT_JSON @ trm, Raises y)
      | (trm, Inr u) \<Rightarrow>
          (tr @ save_json (failure_payload (str_exc exc_msg x)) OUT_JSON @ trm
              @ [PrintErr (''Error: '' @ str_exc exc_msg x)],
           Returns 1))"

text \<open>The rest of the \<^verbatim>\<open>try\<close> body once \<^verbatim>\<open>fetch_events\<close> has returned \<open>payload\<close>.\<close>

definition on_payload ::
  "(json \<Rightarrow> string) \<Rightarrow> config \<Rightarrow> json \<Rightarrow> effect list \<times> int result" where
  "on_payload py_str cfg payload =
     (case dict_item payload ''count'' of
        Inl x \<Rightarrow> ([], Inl x)
      | Inr c \<Rightarrow>
          (case dict_get_default payload ''events'' (JArr []) of
             Inl x \<Rightarrow>
               ([Print (''Fetched '' @ fmt py_str c @ '' events.'')] @ save_json payload OUT_JSON,
                Inl x)
           | Inr evs \<Rightarrow>
               (case save_markdown py_str (LOOKAHEAD_DAYS cfg) evs OUT_MD of
                  (trm, Inl x) \<Rightarrow>
                    ([Print (''Fetched '' @ fmt py_str c @ '' events.'')]
                       @ save_json payload OUT_JSON @ trm, Inl x)
                | (trm, Inr u) \<Rightarrow>
                    ([Print (''Fetched '' @ fmt py_str c @ '' events.'')]
                       @ save_json payload OUT_JSON @ trm, Inr 0))))"

text \<open>The \<^verbatim>\<open>try\<close> body of \<^verbatim>\<open>main\<close>: what it did, and the value or the exception it
  ended with.\<close>

definition try_body ::
  "(string \<Rightarrow> iso_result) \<Rightarrow> (json \<Rightarrow> string) \<Rightarrow> int \<Rightarrow> network \<Rightarrow> config \<Rightarrow> string
     \<Rightarrow> (effect list \<times> int result) option" where
  "try_body parse py_str now net cfg tok =
     (case fetch_events parse now net cfg tok (DEFAULT_QUERY cfg) None (DEFAULT_WITHIN cfg) of
        None \<Rightarrow> None
      | Some (trf, Inl x) \<Rightarrow> Some ([Print ''Token acquired; starting fetch...''] @ trf, Inl x)
      | Some (trf, Inr payload) \<Rightarrow>
          (case on_payload py_str cfg payload of
             (trp, r) \<Rightarrow> Some ([Print ''Token acquired; starting fetch...''] @ trf @ trp, r)))"

definition main ::
  "(string \<Rightarrow> iso_result) \<Rightarrow> (json \<Rightarrow> string) \<Rightarrow> (py_exception \<Rightarrow> string) \<Rightarrow> int \<Rightarrow> network
     \<Rightarrow> config \<Rightarrow> (effect list \<times> int ending) option" where
  "main parse py_str exc_msg now net cfg =
     (case get_token py_str cfg of
        (tr0, Raises x) \<Rightarrow> Some (tr0, Raises x)
      | (tr0, SystemExit n) \<Rightarrow> Some (tr0, SystemExit n)
      | (tr0, Returns tok) \<Rightarrow>
          (case try_body parse py_str now net cfg tok of
             None \<Rightarrow> None
           | Some (tr, Inl x) \<Rightarrow> Some (on_exception py_str exc_msg cfg (tr0 @ tr) x)
           | Some (tr, Inr n) \<Rightarrow> Some (tr0 @ tr, Returns n)))"

text \<open>\<^verbatim>\<open>sys.exit(main())\<close>: the status the process ends with (an uncaught exception
  ends it with 1).\<close>

fun exit_status :: "int ending \<Rightarrow> int" where
  "exit_status (Returns n) = n"
| "exit_status (SystemExit n) = n"
| "exit_status (Raises x) = 1"

section \<open>Shapes of the data\<close>

text \<open>The predicates and total readings the statements below are written with.\<close>

fun is_dict :: "json \<Rightarrow> bool" where
  "is_dict (JObj kvs) = True"
| "is_dict _ = False"

text \<open>The value under a key, \<^verbatim>\<open>None\<close> when the key is absent or the value is no dict.\<close>

fun field :: "json \<Rightarrow> string \<Rightarrow> json" where
  "field (JObj kvs) k = (case map_of kvs k of None \<Rightarrow> JNull | Some v \<Rightarrow> v)"
| "field _ k = JNull"

text \<open>A nested value that \<^verbatim>\<open>(v or {}).get\<close> can read: falsy, or a dict.\<close>

definition nested_ok :: "json \<Rightarrow> bool" where
  "nested_ok v = (\<not> truthy v \<or> is_dict v)"

text \<open>A raw record whose \<^verbatim>\<open>venue\<close>, \<^verbatim>\<open>venue.address\<close>, \<^verbatim>\<open>name\<close>, \<^verbatim>\<open>start\<close> and
  \<^verbatim>\<open>end\<close> are each absent, falsy or a dict.\<close>

definition raw_event_ok :: "json \<Rightarrow> bool" where
  "raw_event_ok e =
     (is_dict e \<and> nested_ok (field e ''venue'')
      \<and> nested_ok (field (field e ''venue'') ''address'')
      \<and> nested_ok (field e ''name'') \<and> nested_ok (field e ''start'')
      \<and> nested_ok (field e ''end''))"

text \<open>The flat shape of the specification, read off a raw record.\<close>

definition flat_event :: "json \<Rightarrow> json" where
  "flat_event e =
     JObj [(''id'', field e ''id''),
           (''name'', field (field e ''name'') ''text''),
           (''url'', field e ''url''),
           (''start'', field (field e ''start'') ''local''),
           (''end'', field (field e ''end'') ''local''),
           (''is_free'', field e ''is_free''),
           (''status'', field e ''status''),
           (''city'', field (field (field e ''venue'') ''address'') ''city''),
           (''state'', field (field (field e ''venue'') ''address'') ''region''),
           (''venue_name'', field (field e ''venue'') ''name''),
           (''address'',
              field (field (field e ''venue'') ''address'') ''localized_address_display'')]"

text \<open>The window filter: a start it can compare, and a start inside the window.\<close>

fun is_aware :: "iso_result \<Rightarrow> bool" where
  "is_aware (IsoAware t off) = True"
| "is_aware _ = False"

definition start_ok :: "(string \<Rightarrow> iso_result) \<Rightarrow> json \<Rightarrow> bool" where
  "start_ok parse e =
     (is_dict e \<and> (case field e ''start'' of
                      JStr s \<Rightarrow> s = [] \<or> \<not> is_aware (parse s)
                    | v \<Rightarrow> \<not> truthy v))"

definition in_window :: "(string \<Rightarrow> iso_result) \<Rightarrow> int \<Rightarrow> int \<Rightarrow> json \<Rightarrow> bool" where
  "in_window parse now cutoff e =
     (case field e ''start'' of
        JStr s \<Rightarrow> s \<noteq> [] \<and> (case parse s of IsoNaive dt \<Rightarrow> now \<le> dt \<and> dt \<le> cutoff | _ \<Rightarrow> False)
      | _ \<Rightarrow> False)"

text \<open>The deduplicator: values a set can hold, and the key of an event read totally
  (\<open>hkey_of\<close> is \<open>py_hashable\<close> on the hashable values).\<close>

fun hashable :: "json \<Rightarrow> bool" where
  "hashable (JArr xs) = False"
| "hashable (JObj kvs) = False"
| "hashable _ = True"

fun hkey_of :: "json \<Rightarrow> hkey" where
  "hkey_of (JBool b) = HNum (if b then 1 else 0)"
| "hkey_of (JNum r) = HNum r"
| "hkey_of (JStr s) = HStr s"
| "hkey_of _ = HNone"

definition key_of :: "json \<Rightarrow> hkey \<times> hkey" where
  "key_of e = (hkey_of (field e ''name''), hkey_of (field e ''start''))"

definition key_ok :: "json \<Rightarrow> bool" where
  "key_ok e = (is_dict e \<and> hashable (field e ''name'') \<and> hashable (field e ''start''))"

text \<open>
  The deduplicator in the words of the specification: the first event of a key is kept
  and every later event of that key is dropped.
\<close>

fun first_of_each :: "('a \<Rightarrow> 'k) \<Rightarrow> 'a list \<Rightarrow> 'a list" where
  "first_of_each key [] = []"
| "first_of_each key (x # xs) = x # first_of_each key (filter (\<lambda>y. key y \<noteq> key x) xs)"

text \<open>
  The region searcher: what a search request is answered with. \<open>page_of\<close> is a page the
  loop can use (status 200, a JSON body, the items and the flag read without an
  exception); \<open>page_fails\<close> is an answer the loop turns into a warning, and
  \<open>page_warning\<close> is that warning.
\<close>

definition page_of :: "network \<Rightarrow> headers \<Rightarrow> search_params \<Rightarrow> (json list \<times> bool) option" where
  "page_of net hdrs ps =
     (case net (search_request hdrs ps) of
        RequestException exc \<Rightarrow> None
      | Response resp \<Rightarrow>
          if status_code resp = 200
          then (case body_json resp of
                  None \<Rightarrow> None
                | Some data \<Rightarrow> (case page_content data of Inl x \<Rightarrow> None | Inr p \<Rightarrow> Some p))
          else None)"

definition page_items :: "network \<Rightarrow> headers \<Rightarrow> search_params \<Rightarrow> json list" where
  "page_items net hdrs ps = (case page_of net hdrs ps of None \<Rightarrow> [] | Some (items, b) \<Rightarrow> items)"

definition page_continues :: "network \<Rightarrow> headers \<Rightarrow> search_params \<Rightarrow> bool" where
  "page_continues net hdrs ps = (case page_of net hdrs ps of None \<Rightarrow> False | Some (items, b) \<Rightarrow> b)"

definition page_ends :: "network \<Rightarrow> headers \<Rightarrow> search_params \<Rightarrow> bool" where
  "page_ends net hdrs ps = (case page_of net hdrs ps of None \<Rightarrow> False | Some (items, b) \<Rightarrow> \<not> b)"

definition page_fails :: "network \<Rightarrow> headers \<Rightarrow> search_params \<Rightarrow> bool" where
  "page_fails net hdrs ps =
     (case net (search_request hdrs ps) of
        RequestException exc \<Rightarrow> True
      | Response resp \<Rightarrow> status_code resp \<noteq> 200 \<or> body_json resp = None)"

definition page_warning :: "string \<Rightarrow> response \<Rightarrow> string" where
  "page_warning loc r =
     (case r of
        RequestException exc \<Rightarrow> ''request_error:'' @ loc @ '':'' @ exc
      | Response resp \<Rightarrow>
          (if status_code resp = 404 then ''404''
           else if status_code resp = 401 \<or> status_code resp = 403
             then ''auth_error_http_'' @ str_int (status_code resp)
           else if status_code resp = 429 then ''rate_limited_http_429''
           else if status_code resp \<noteq> 200 then ''http_'' @ str_int (status_code resp)
           else ''invalid_json_response'')
          @ '':'' @ loc @ '':'' @ take 256 (body_text resp))"




definition first_page :: "string \<Rightarrow> string \<Rightarrow> string \<Rightarrow> search_params" where
  "first_page query location within' =
     \<lparr>q = query, location_address = location, location_within = within',
      expand = ''venue'', sort_by = ''date'', page = 1\<rparr>"

text \<open>The narrative file of a run without events.\<close>

definition no_events_text :: "int \<Rightarrow> string" where
  "no_events_text days =
     ''# Upcoming Veteran Events in Montana and Wyoming'' @ [NL] @ [NL]
       @ ''No events found within the next '' @ str_int days @ '' days.'' @ [NL]"

section \<open>Sample inputs\<close>

definition sample_cfg :: config where
  "sample_cfg =
     \<lparr>DEFAULT_QUERY = ''veteran OR veterans OR military OR service member'',
      DEFAULT_WITHIN = ''500mi'', LOOKAHEAD_DAYS = 60, PAGE_DELAY_SEC = 1 / 2,
      user_agent = ''mt-wy-veteran-events-scraper/1.0'', token = None\<rparr>"

definition sample_headers :: headers where
  "sample_headers =
     \<lparr>Authorization = ''Bearer abc'', Accept = ''application/json'',
      User_Agent = ''mt-wy-veteran-events-scraper/1.0''\<rparr>"

text \<open>A network on which every request fails to connect.\<close>

definition net_down :: network where
  "net_down r = RequestException ''connection refused''"

text \<open>A network that rejects the token, with a body of 300 characters.\<close>

definition net_401 :: network where
  "net_401 r = Response \<lparr>status_code = 401, body_text = replicate 300 CHR ''x'', body_json = None\<rparr>"

text \<open>A raw record as the API sends it, and one with nothing in it.\<close>

definition raw_full :: json where
  "raw_full =
     JObj [(''id'', JStr ''101''),
           (''name'', JObj [(''text'', JStr ''Veterans Breakfast'')]),
           (''url'', JStr ''https://example.org/e/101''),
           (''start'', JObj [(''local'', JStr ''2030-01-10T09:00:00'')]),
           (''end'', JObj [(''local'', JStr ''2030-01-10T11:00:00'')]),
           (''is_free'', JBool True),
           (''status'', JStr ''live''),
           (''venue'', JObj [(''name'', JStr ''Legion Hall''),
                             (''address'', JObj [(''city'', JStr ''Helena''),
                                                 (''region'', JStr ''MT''),
                                                 (''localized_address_display'',
                                                    JStr ''1 Main St, Helena, MT'')])])]"

definition raw_empty :: json where
  "raw_empty = JObj []"

text \<open>The clock at 2030-01-01T00:00:00, and \<^verbatim>\<open>datetime.fromisoformat\<close> on the strings
  the examples use (any other string stands for one that is not ISO-8601).\<close>

definition sample_now :: int where
  "sample_now = 64029052800000000"

definition sample_parse :: "string \<Rightarrow> iso_result" where
  "sample_parse s =
     (if s = ''2030-01-01T00:00:00'' then IsoNaive 64029052800000000
      else if s = ''2030-03-02T00:00:00'' then IsoNaive 64034236800000000
      else if s = ''2030-03-02T00:00:01'' then IsoNaive 64034236801000000
      else if s = ''2030-01-10T09:00:00'' then IsoNaive 64029862800000000
      else if s = ''2029-12-31T23:59:59'' then IsoNaive 64029052799000000
      else if s = ''2030-01-10T09:00:00+00:00'' then IsoAware 64029862800000000 0
      else IsoValueError)"

text \<open>A normalized event with a name, a start and a url.\<close>

definition sample_event :: "json \<Rightarrow> json \<Rightarrow> json \<Rightarrow> json" where
  "sample_event n s u =
     JObj [(''id'', JNull), (''name'', n), (''url'', u), (''start'', s), (''end'', JNull),
           (''is_free'', JNull), (''status'', JNull), (''city'', JNull), (''state'', JNull),
           (''venue_name'', JNull), (''address'', JNull)]"

text \<open>
  A network that accepts the token, answers Montana with two pages (the first announces
  more items) and Wyoming with status 429.
\<close>

definition raw_event :: "string \<Rightarrow> string \<Rightarrow> json" where
  "raw_event n s = JObj [(''name'', JObj [(''text'', JStr n)]), (''start'', JObj [(''local'', JStr s)])]"

definition page_body :: "json list \<Rightarrow> bool \<Rightarrow> json" where
  "page_body evs more_items =
     JObj [(''events'', JArr evs), (''pagination'', JObj [(''has_more_items'', JBool more_items)])]"

definition net_sample :: network where
  "net_sample r =
     (case params r of
        None \<Rightarrow> Response \<lparr>status_code = 200, body_text = ''{}'', body_json = Some (JObj [])\<rparr>
      | Some ps \<Rightarrow>
          if location_address ps = ''Montana'' \<and> page ps = 1 then
            Response \<lparr>status_code = 200, body_text = [],
                      body_json = Some (page_body [raw_event ''Muster'' ''2030-01-10T09:00:00'',
                                                   raw_event ''Muster'' ''2030-01-10T09:00:00'']
                                         True)\<rparr>
          else if location_address ps = ''Montana'' \<and> page ps = 2 then
            Response \<lparr>status_code = 200, body_text = [],
                      body_json = Some (page_body [raw_event ''Late'' ''2030-03-02T00:00:01'']
                                         False)\<rparr>
          else Response \<lparr>status_code = 429, body_text = ''slow down'', body_json = None\<rparr>)"

text \<open>\<^verbatim>\<open>str()\<close> on the values the examples print.\<close>

definition sample_py_str :: "json \<Rightarrow> string" where
  "sample_py_str v =
     (case v of
        JNull \<Rightarrow> ''None''
      | JBool b \<Rightarrow> (if b then ''True'' else ''False'')
      | JNum r \<Rightarrow> str_int (floor r)
      | JStr s \<Rightarrow> s
      | _ \<Rightarrow> ''...'')"

text \<open>The flat record of \<open>raw_event n s\<close>.\<close>

definition sample_flat :: "string \<Rightarrow> string \<Rightarrow> json" where
  "sample_flat n s =
     JObj [(''id'', JNull), (''name'', JStr n), (''url'', JNull), (''start'', JStr s),
           (''end'', JNull), (''is_free'', JNull), (''status'', JNull), (''city'', JNull),
           (''state'', JNull), (''venue_name'', JNull), (''address'', JNull)]"

text \<open>The sample configuration with a credential.\<close>

definition sample_run_cfg :: config where
  "sample_run_cfg = sample_cfg\<lparr>token := Some ''abc''\<rparr>"




text \<open>A stand-in for the interpreter's text of a built-in exception.\<close>

definition sample_exc_msg :: "py_exception \<Rightarrow> string" where
  "sample_exc_msg x = ''internal error''"

section \<open>Facts about the report writer\<close>

lemma str_int_60: "str_int 60 = ''60''"
  by code_simp

lemma str_int_401: "str_int 401 = ''401''"
  by code_simp

lemma dirname_out_json: "os_path_dirname ''events.json'' = []"
  by (simp add: os_path_dirname_def)

lemma save_json_out:
  "save_json payload ''events.json'' = [MakeDirs ''.'', WriteFile ''events.json'' (JsonDump payload)]"
  by (simp add: save_json_def dirname_out_json)

lemma save_markdown_empty:
  "save_markdown py_str days (JArr []) path =
     ([WriteFile path (PlainText
        (''# Upcoming Veteran Events in Montana and Wyoming'' @ [NL] @ [NL]
          @ ''No events found within the next '' @ str_int days @ '' days.'' @ [NL]))], Inr ())"
  by (simp add: save_markdown_def markdown_lines_def)

section \<open>Token gate: the credential\<close>

text \<open>
  C4. When the credential variable is absent, the run makes no request: it writes the
  structured file with \<^verbatim>\<open>{"generated": false, "error": "EVENTBRITE_TOKEN is not set"}\<close>,
  writes the narrative file with the heading and the "no events" sentence, and ends
  with status 2.
\<close>

theorem missing_token_exit_2:
  assumes "token cfg = None"
  shows "main parse py_str exc_msg now net cfg =
           Some ([MakeDirs ''.'',
                  WriteFile ''events.json''
                    (JsonDump (JObj [(''generated'', JBool False),
                                     (''error'', JStr ''EVENTBRITE_TOKEN is not set'')])),
                  WriteFile ''events.md''
                    (PlainText (''# Upcoming Veteran Events in Montana and Wyoming'' @ [NL] @ [NL]
                       @ ''No events found within the next '' @ str_int (LOOKAHEAD_DAYS cfg)
                       @ '' days.'' @ [NL]))],
                 SystemExit 2)
       \<and> map_option (\<lambda>r. exit_status (snd r)) (main parse py_str exc_msg now net cfg) = Some 2
       \<and> map_option (\<lambda>r. filter is_request (fst r)) (main parse py_str exc_msg now net cfg)
           = Some []"
  using assms
  by (simp add: main_def get_token_def save_markdown_empty save_json_out failure_payload_def
        OUT_JSON_def OUT_MD_def)

theorem missing_token_exit_2_witness:
  "main (\<lambda>s. IsoValueError) (\<lambda>v. []) (\<lambda>x. []) 0 net_down sample_cfg =
     Some ([MakeDirs ''.'',
            WriteFile ''events.json''
              (JsonDump (JObj [(''generated'', JBool False),
                               (''error'', JStr ''EVENTBRITE_TOKEN is not set'')])),
            WriteFile ''events.md''
              (PlainText (''# Upcoming Veteran Events in Montana and Wyoming'' @ [NL] @ [NL]
                 @ ''No events found within the next 60 days.'' @ [NL]))],
           SystemExit 2)"
proof -
  have t: "token sample_cfg = None" by (simp add: sample_cfg_def)
  have d: "LOOKAHEAD_DAYS sample_cfg = 60" by (simp add: sample_cfg_def)
  show ?thesis
    using conjunct1 [OF missing_token_exit_2
        [OF t, of "\<lambda>s. IsoValueError" "\<lambda>v. []" "\<lambda>x. []" 0 net_down]]
    by (simp add: d str_int_60)
qed

text \<open>
  C10. A credential variable that is set to the empty string is treated as an absent
  one: the run is the run of the same configuration without the variable, that is, the
  misconfiguration payload, the empty report, status 2 and no request.
\<close>

theorem empty_token_like_absent:
  assumes "token cfg = Some []"
  shows "main parse py_str exc_msg now net cfg
           = main parse py_str exc_msg now net (cfg\<lparr>token := None\<rparr>)
       \<and> main parse py_str exc_msg now net cfg =
           Some ([MakeDirs ''.'',
                  WriteFile ''events.json''
                    (JsonDump (JObj [(''generated'', JBool False),
                                     (''error'', JStr ''EVENTBRITE_TOKEN is not set'')])),
                  WriteFile ''events.md''
                    (PlainText (''# Upcoming Veteran Events in Montana and Wyoming'' @ [NL] @ [NL]
                       @ ''No events found within the next '' @ str_int (LOOKAHEAD_DAYS cfg)
                       @ '' days.'' @ [NL]))],
                 SystemExit 2)
       \<and> map_option (\<lambda>r. exit_status (snd r)) (main parse py_str exc_msg now net cfg) = Some 2
       \<and> map_option (\<lambda>r. filter is_request (fst r)) (main parse py_str exc_msg now net cfg)
           = Some []"
  using assms
  by (simp add: main_def get_token_def save_markdown_empty save_json_out failure_payload_def
        OUT_JSON_def OUT_MD_def)

theorem empty_token_like_absent_witness:
  "main (\<lambda>s. IsoValueError) (\<lambda>v. []) (\<lambda>x. []) 0 net_down (sample_cfg\<lparr>token := Some []\<rparr>) =
     Some ([MakeDirs ''.'',
            WriteFile ''events.json''
              (JsonDump (JObj [(''generated'', JBool False),
                               (''error'', JStr ''EVENTBRITE_TOKEN is not set'')])),
            WriteFile ''events.md''
              (PlainText (''# Upcoming Veteran Events in Montana and Wyoming'' @ [NL] @ [NL]
                 @ ''No events found within the next 60 days.'' @ [NL]))],
           SystemExit 2)"
proof -
  have t: "token (sample_cfg\<lparr>token := Some []\<rparr>) = Some []" by simp
  have d: "LOOKAHEAD_DAYS (sample_cfg\<lparr>token := Some []\<rparr>) = 60" by (simp add: sample_cfg_def)
  show ?thesis
    using conjunct1 [OF conjunct2 [OF empty_token_like_absent
        [OF t, of "\<lambda>s. IsoValueError" "\<lambda>v. []" "\<lambda>x. []" 0 net_down]]]
    by (simp add: d str_int_60)
qed

section \<open>Token gate: validation\<close>

text \<open>
  C5. \<^verbatim>\<open>validate_token\<close> sends one request to the identity endpoint and returns
  normally exactly when the answer has status 200. Status 401 or 403 raises
  \<^verbatim>\<open>token_invalid_or_forbidden\<close> with the status and the first 256 characters of the
  body; 429 raises \<^verbatim>\<open>rate_limited_on_token_validation\<close> with the same snippet; any other
  status raises \<^verbatim>\<open>token_validation_http_error\<close>; a transport failure raises
  \<^verbatim>\<open>token_validation_request_error\<close> with the text of the underlying error.
\<close>

theorem validate_token_classification:
  "(snd (validate_token net hdrs) = Inr () \<longleftrightarrow>
      (\<exists>resp. net (identity_request hdrs) = Response resp \<and> status_code resp = 200))
   \<and> (\<forall>resp. net (identity_request hdrs) = Response resp
          \<and> (status_code resp = 401 \<or> status_code resp = 403) \<longrightarrow>
        snd (validate_token net hdrs) =
          Inl (RuntimeError (''token_invalid_or_forbidden:http_'' @ str_int (status_code resp)
                 @ '':'' @ take 256 (body_text resp))))
   \<and> (\<forall>resp. net (identity_request hdrs) = Response resp \<and> status_code resp = 429 \<longrightarrow>
        snd (validate_token net hdrs) =
          Inl (RuntimeError (''rate_limited_on_token_validation:http_429:''
                 @ take 256 (body_text resp))))
   \<and> (\<forall>resp. net (identity_request hdrs) = Response resp
          \<and> status_code resp \<notin> {200, 401, 403, 429} \<longrightarrow>
        snd (validate_token net hdrs) =
          Inl (RuntimeError (''token_validation_http_error:http_'' @ str_int (status_code resp)
                 @ '':'' @ take 256 (body_text resp))))
   \<and> (\<forall>exc. net (identity_request hdrs) = RequestException exc \<longrightarrow>
        snd (validate_token net hdrs) =
          Inl (RuntimeError (''token_validation_request_error:'' @ exc)))
   \<and> fst (validate_token net hdrs) = [NetGet (identity_request hdrs)]
   \<and> length (take 256 (body_text r)) \<le> 256"
  by (cases "net (identity_request hdrs)") (auto simp: validate_token_def Let_def)

theorem validate_token_classification_witness:
  "snd (validate_token net_401 sample_headers) =
     Inl (RuntimeError (''token_invalid_or_forbidden:http_401:'' @ replicate 256 CHR ''x''))
   \<and> snd (validate_token net_down sample_headers) =
     Inl (RuntimeError ''token_validation_request_error:connection refused'')"
  using validate_token_classification [of net_401 sample_headers]
    validate_token_classification [of net_down sample_headers]
  by (simp add: net_401_def net_down_def str_int_401)

section \<open>Normalizer\<close>

lemma dict_get_field: "is_dict e \<Longrightarrow> dict_get e k = Inr (field e k)"
  by (cases e) simp_all

lemma dict_get_not_dict: "\<not> is_dict e \<Longrightarrow> dict_get e k = Inl AttributeError"
  by (cases e) simp_all

lemma dict_get_py_or:
  "dict_get (py_or v (JObj [])) k = (if nested_ok v then Inr (field v k) else Inl AttributeError)"
  by (cases v) (auto simp: py_or_def nested_ok_def)

lemma field_py_or: "nested_ok v \<Longrightarrow> field (py_or v (JObj [])) k = field v k"
  by (cases v) (auto simp: py_or_def nested_ok_def)

lemma normalize_event_eq:
  "normalize_event e = (if raw_event_ok e then Inr (flat_event e) else Inl AttributeError)"
proof (cases "is_dict e")
  case False
  then show ?thesis
    by (simp add: normalize_event_def raw_event_ok_def dict_get_not_dict ebind_def)
next
  case True
  note d = dict_get_field [OF True]
  show ?thesis
  proof (cases "nested_ok (field e ''venue'')")
    case False
    then show ?thesis
      by (simp add: normalize_event_def raw_event_ok_def d ebind_def Let_def dict_get_py_or)
  next
    case v: True
    show ?thesis
      using True v
      by (simp add: normalize_event_def raw_event_ok_def d ebind_def Let_def dict_get_py_or
            field_py_or flat_event_def)
  qed
qed

lemma normalize_loop_eq:
  "normalize_loop acc es =
     (if \<forall>e \<in> set es. raw_event_ok e then Inr (acc @ map flat_event es)
      else Inl AttributeError)"
  by (induction es arbitrary: acc) (auto simp: normalize_event_eq)

lemma normalize_events_eq:
  "normalize_events es =
     (if \<forall>e \<in> set es. raw_event_ok e then Inr (map flat_event es) else Inl AttributeError)"
  by (simp add: normalize_events_def normalize_loop_eq)

text \<open>
  C3, as the specification states it, fails: a record whose \<^verbatim>\<open>name\<close> is a string and
  not a nested object makes \<^verbatim>\<open>(e.get("name") or {}).get("text")\<close> raise
  \<^verbatim>\<open>AttributeError\<close>.
\<close>

theorem normalize_events_raises:
  "normalize_events [JObj [(''name'', JStr ''x'')]] = Inl AttributeError"
  by (simp add: normalize_events_eq raw_event_ok_def nested_ok_def)

text \<open>
  C3, amended. On records whose \<^verbatim>\<open>venue\<close>, \<^verbatim>\<open>venue.address\<close>, \<^verbatim>\<open>name\<close>,
  \<^verbatim>\<open>start\<close> and \<^verbatim>\<open>end\<close> are each absent, falsy or a dict, \<^verbatim>\<open>normalize_events\<close> does
  not raise: it returns one flat record per input record, in the input order, and a
  nested field that is absent comes out as \<^verbatim>\<open>None\<close>. On any other list it raises
  \<^verbatim>\<open>AttributeError\<close>.
\<close>

theorem normalize_events_shaped:
  "((\<forall>e \<in> set events. raw_event_ok e) \<longrightarrow>
      normalize_events events = Inr (map flat_event events)
      \<and> length (map flat_event events) = length events
      \<and> (\<forall>i < length events. map flat_event events ! i = flat_event (events ! i)))
   \<and> (\<not> (\<forall>e \<in> set events. raw_event_ok e) \<longrightarrow> normalize_events events = Inl AttributeError)
   \<and> (field e ''name'' = JNull \<longrightarrow> field (flat_event e) ''name'' = JNull)
   \<and> (field e ''start'' = JNull \<longrightarrow> field (flat_event e) ''start'' = JNull)
   \<and> (field e ''end'' = JNull \<longrightarrow> field (flat_event e) ''end'' = JNull)
   \<and> (field e ''venue'' = JNull \<longrightarrow>
        field (flat_event e) ''venue_name'' = JNull \<and> field (flat_event e) ''city'' = JNull
        \<and> field (flat_event e) ''state'' = JNull \<and> field (flat_event e) ''address'' = JNull)
   \<and> (field (field e ''venue'') ''address'' = JNull \<longrightarrow>
        field (flat_event e) ''city'' = JNull \<and> field (flat_event e) ''state'' = JNull
        \<and> field (flat_event e) ''address'' = JNull)"
  by (simp add: normalize_events_eq flat_event_def)

theorem normalize_events_shaped_witness:
  "normalize_events [raw_full, raw_empty] =
     Inr [JObj [(''id'', JStr ''101''), (''name'', JStr ''Veterans Breakfast''),
                (''url'', JStr ''https://example.org/e/101''),
                (''start'', JStr ''2030-01-10T09:00:00''),
                (''end'', JStr ''2030-01-10T11:00:00''),
                (''is_free'', JBool True), (''status'', JStr ''live''),
                (''city'', JStr ''Helena''), (''state'', JStr ''MT''),
                (''venue_name'', JStr ''Legion Hall''),
                (''address'', JStr ''1 Main St, Helena, MT'')],
          JObj [(''id'', JNull), (''name'', JNull), (''url'', JNull), (''start'', JNull),
                (''end'', JNull), (''is_free'', JNull), (''status'', JNull),
                (''city'', JNull), (''state'', JNull), (''venue_name'', JNull),
                (''address'', JNull)]]"
proof -
  have ok: "\<forall>e \<in> set [raw_full, raw_empty]. raw_event_ok e"
    by (simp add: raw_full_def raw_empty_def raw_event_ok_def nested_ok_def)
  show ?thesis
    using normalize_events_shaped [of "[raw_full, raw_empty]" raw_empty] ok
    by (simp add: flat_event_def raw_full_def raw_empty_def)
qed

section \<open>Window filter\<close>

lemma filter_loop_step:
  "filter_loop parse now cutoff acc (e # es) = Inr r \<Longrightarrow>
     filter_loop parse now cutoff (if in_window parse now cutoff e then acc @ [e] else acc) es = Inr r"
proof (cases e)
  case (JObj kvs)
  assume "filter_loop parse now cutoff acc (e # es) = Inr r"
  with JObj show ?thesis
    by (cases "field e ''start''")
       (auto simp: in_window_def split: if_splits iso_result.splits)
qed simp_all

lemma filter_loop_result:
  "filter_loop parse now cutoff acc es = Inr r \<Longrightarrow>
     r = acc @ filter (in_window parse now cutoff) es"
proof (induction es arbitrary: acc)
  case Nil
  then show ?case by simp
next
  case (Cons e es)
  from Cons.IH [OF filter_loop_step [OF Cons.prems]] show ?case by simp
qed

lemma filter_loop_total:
  "\<forall>e \<in> set es. start_ok parse e \<Longrightarrow> \<exists>r. filter_loop parse now cutoff acc es = Inr r"
proof (induction es arbitrary: acc)
  case Nil
  then show ?case by simp
next
  case (Cons e es)
  then have e: "start_ok parse e" and rest: "\<forall>e \<in> set es. start_ok parse e" by simp_all
  from e obtain kvs where k: "e = JObj kvs" by (cases e) (simp_all add: start_ok_def)
  show ?case
    using e Cons.IH [OF rest] k
    by (auto simp: start_ok_def split: json.splits iso_result.splits)
qed

text \<open>
  C1, amended. Let the clock and the cutoff \<open>now + days\<close> be representable timestamps
  and let every event be a dict whose start is absent, falsy, or a string that
  \<^verbatim>\<open>fromisoformat\<close> rejects or reads as a naive timestamp. Then \<^verbatim>\<open>filter_upcoming\<close>
  returns, in input order, exactly the events whose start is a non-empty string that
  parses to a time \<open>t\<close> with \<open>now \<le> t \<le> cutoff\<close>; absent and unparsable starts are
  dropped and nothing is raised.
\<close>

theorem filter_upcoming_window:
  assumes "0 \<le> now" "now \<le> DATETIME_MAX"
    and "0 \<le> now + days * MICROS_PER_DAY" "now + days * MICROS_PER_DAY \<le> DATETIME_MAX"
    and "\<forall>e \<in> set events. start_ok parse e"
  shows "filter_upcoming parse now events days =
           Inr (filter (in_window parse now (now + days * MICROS_PER_DAY)) events)"
proof -
  have c: "timedelta_days days = Inr (days * MICROS_PER_DAY)"
    using assms(1-4)
    by (auto simp: timedelta_days_def DATETIME_MAX_def MICROS_PER_DAY_def)
  have a: "datetime_add now (days * MICROS_PER_DAY) = Inr (now + days * MICROS_PER_DAY)"
    using assms(3,4) by (simp add: datetime_add_def)
  obtain r where r: "filter_loop parse now (now + days * MICROS_PER_DAY) [] events = Inr r"
    using filter_loop_total [OF assms(5)] by blast
  from filter_loop_result [OF r] r show ?thesis
    by (simp add: filter_upcoming_def ebind_def c a)
qed

text \<open>
  C1, as the specification states it, fails: a start with a UTC offset parses to an aware
  timestamp and the comparison with the naive clock raises \<^verbatim>\<open>TypeError\<close>; so does a
  start that is a number; and a lookahead that takes the cutoff past year 9999 raises
  \<^verbatim>\<open>OverflowError\<close>.
\<close>

theorem filter_upcoming_raises:
  "filter_upcoming sample_parse sample_now
     [sample_event (JStr ''Muster'') (JStr ''2030-01-10T09:00:00+00:00'') JNull] 60 = Inl TypeError
   \<and> filter_upcoming sample_parse sample_now [sample_event (JStr ''Muster'') (JNum 5) JNull] 60
       = Inl TypeError
   \<and> filter_upcoming sample_parse sample_now [] 4000000 = Inl OverflowError"
  by (simp add: filter_upcoming_def ebind_def timedelta_days_def datetime_add_def
        MICROS_PER_DAY_def DATETIME_MAX_def sample_now_def sample_event_def sample_parse_def)


theorem filter_upcoming_window_witness:
  "filter_upcoming sample_parse sample_now
     [sample_event (JStr ''At now'') (JStr ''2030-01-01T00:00:00'') JNull,
      sample_event (JStr ''Before now'') (JStr ''2029-12-31T23:59:59'') JNull,
      sample_event (JStr ''No start'') JNull JNull,
      sample_event (JStr ''At cutoff'') (JStr ''2030-03-02T00:00:00'') JNull,
      sample_event (JStr ''Unparsable'') (JStr ''soon'') JNull,
      sample_event (JStr ''Past cutoff'') (JStr ''2030-03-02T00:00:01'') JNull] 60 =
   Inr [sample_event (JStr ''At now'') (JStr ''2030-01-01T00:00:00'') JNull,
        sample_event (JStr ''At cutoff'') (JStr ''2030-03-02T00:00:00'') JNull]"
proof -
  have r: "0 \<le> sample_now" "sample_now \<le> DATETIME_MAX"
    "0 \<le> sample_now + 60 * MICROS_PER_DAY" "sample_now + 60 * MICROS_PER_DAY \<le> DATETIME_MAX"
    by (simp_all add: sample_now_def DATETIME_MAX_def MICROS_PER_DAY_def)
  have ok: "\<forall>e \<in> set
     [sample_event (JStr ''At now'') (JStr ''2030-01-01T00:00:00'') JNull,
      sample_event (JStr ''Before now'') (JStr ''2029-12-31T23:59:59'') JNull,
      sample_event (JStr ''No start'') JNull JNull,
      sample_event (JStr ''At cutoff'') (JStr ''2030-03-02T00:00:00'') JNull,
      sample_event (JStr ''Unparsable'') (JStr ''soon'') JNull,
      sample_event (JStr ''Past cutoff'') (JStr ''2030-03-02T00:00:01'') JNull].
        start_ok sample_parse e"
    by (simp add: start_ok_def sample_event_def sample_parse_def)
  show ?thesis
    using filter_upcoming_window [OF r ok]
    by (simp add: in_window_def sample_event_def sample_parse_def sample_now_def
          MICROS_PER_DAY_def)
qed

section \<open>Deduplicator\<close>

lemma py_hashable_ok: "hashable v \<Longrightarrow> py_hashable v = Inr (hkey_of v)"
  by (cases v) simp_all

lemma event_key_ok: "key_ok e \<Longrightarrow> event_key e = Inr (key_of e)"
  by (simp add: key_ok_def event_key_def key_of_def dict_get_field py_hashable_ok ebind_def)

lemma dedup_loop_eq:
  "\<forall>e \<in> set es. key_ok e \<Longrightarrow>
     dedup_loop seen acc es = Inr (acc @ first_of_each key_of (filter (\<lambda>e. key_of e \<notin> seen) es))"
proof (induction es arbitrary: seen acc)
  case Nil
  then show ?case by simp
next
  case (Cons e es)
  then have k: "event_key e = Inr (key_of e)" and rest: "\<forall>e \<in> set es. key_ok e"
    by (simp_all add: event_key_ok)
  show ?case
    using Cons.IH [OF rest] by (simp add: k conj_commute)
qed

lemma dedup_loop_subset:
  "dedup_loop seen acc es = Inr r \<Longrightarrow> set r \<subseteq> set acc \<union> set es"
proof (induction es arbitrary: seen acc)
  case Nil
  then show ?case by auto
next
  case (Cons e es)
  then show ?case
    by (fastforce split: sum.splits if_splits)
qed

lemma first_of_each_snoc:
  "first_of_each key (xs @ [y]) =
     first_of_each key xs @ (if key y \<in> key ` set xs then [] else [y])"
proof (induction key xs rule: first_of_each.induct)
  case (1 key)
  then show ?case by simp
next
  case (2 key x xs)
  show ?case
  proof (cases "key y = key x")
    case True
    then show ?thesis by simp
  next
    case False
    have "key y \<in> key ` set (filter (\<lambda>z. key z \<noteq> key x) xs) \<longleftrightarrow> key y \<in> key ` set xs"
      using False by auto
    with False 2 show ?thesis by auto
  qed
qed

lemma first_of_each_subseq: "subseq (first_of_each key xs) xs"
proof (induction key xs rule: first_of_each.induct)
  case (1 key)
  then show ?case by simp
next
  case (2 key x xs)
  have "subseq (filter (\<lambda>y. key y \<noteq> key x) xs) xs" by simp
  with 2 have "subseq (first_of_each key (filter (\<lambda>y. key y \<noteq> key x) xs)) xs"
    using subseq_order.order_trans by blast
  then show ?case by simp
qed

lemma first_of_each_keys: "key ` set (first_of_each key xs) = key ` set xs"
proof (induction key xs rule: first_of_each.induct)
  case (1 key)
  then show ?case by simp
next
  case (2 key x xs)
  then show ?case by auto
qed

lemma first_of_each_set: "set (first_of_each key xs) \<subseteq> set xs"
  by (induction key xs rule: first_of_each.induct) auto

lemma first_of_each_distinct: "distinct (map key (first_of_each key xs))"
proof (induction key xs rule: first_of_each.induct)
  case (1 key)
  then show ?case by simp
next
  case (2 key x xs)
  have "key x \<notin> key ` set (first_of_each key (filter (\<lambda>y. key y \<noteq> key x) xs))"
    using first_of_each_set [of key "filter (\<lambda>y. key y \<noteq> key x) xs"] by auto
  with 2 show ?case by simp
qed

text \<open>
  C2, amended. On dicts whose name and start are hashable (\<^verbatim>\<open>None\<close>, a boolean, a
  number or a string) the deduplication loop keeps the first event of every
  (name, start) pair and drops each later event with an equal pair, whatever its other
  fields; \<^verbatim>\<open>None\<close> is a key value like any other. The survivors are a subsequence of
  the input, their keys are pairwise different, and no key of the input is lost. An
  event appended to the input survives exactly when no earlier event has its key.
\<close>

theorem deduplicate_first_wins:
  assumes "\<forall>e \<in> set es. key_ok e"
  shows "deduplicate es = Inr (first_of_each key_of es)
       \<and> subseq (first_of_each key_of es) es
       \<and> distinct (map key_of (first_of_each key_of es))
       \<and> key_of ` set (first_of_each key_of es) = key_of ` set es
       \<and> (key_ok e \<longrightarrow>
            deduplicate (es @ [e]) =
              Inr (first_of_each key_of es @ (if key_of e \<in> key_of ` set es then [] else [e])))"
proof -
  have a: "deduplicate es = Inr (first_of_each key_of es)"
    using dedup_loop_eq [OF assms, of "{}" "[]"] by (simp add: deduplicate_def)
  have b: "deduplicate (es @ [e]) =
      Inr (first_of_each key_of es @ (if key_of e \<in> key_of ` set es then [] else [e]))"
    if "key_ok e"
  proof -
    from assms that have "\<forall>x \<in> set (es @ [e]). key_ok x" by simp
    from dedup_loop_eq [OF this, of "{}" "[]"] show ?thesis
      by (simp add: deduplicate_def first_of_each_snoc)
  qed
  from a b show ?thesis
    by (simp add: first_of_each_subseq first_of_each_distinct first_of_each_keys)
qed

text \<open>
  C2, as the specification states it, fails: a name that is a list cannot be hashed, and
  the membership test \<^verbatim>\<open>key in seen\<close> raises \<^verbatim>\<open>TypeError\<close>.
\<close>

theorem deduplicate_raises:
  "deduplicate [sample_event (JArr [JStr ''Muster'']) (JStr ''2030-01-10T09:00:00'') JNull]
     = Inl TypeError"
  by (simp add: deduplicate_def event_key_def sample_event_def ebind_def)

theorem deduplicate_first_wins_witness:
  "deduplicate
     [sample_event (JStr ''Muster'') (JStr ''2030-01-10T09:00:00'') (JStr ''https://a''),
      sample_event (JStr ''Parade'') (JStr ''2030-01-10T09:00:00'') (JStr ''https://b''),
      sample_event (JStr ''Muster'') (JStr ''2030-01-10T09:00:00'') (JStr ''https://c''),
      sample_event JNull JNull (JStr ''https://d''),
      sample_event JNull JNull (JStr ''https://e'')] =
   Inr [sample_event (JStr ''Muster'') (JStr ''2030-01-10T09:00:00'') (JStr ''https://a''),
        sample_event (JStr ''Parade'') (JStr ''2030-01-10T09:00:00'') (JStr ''https://b''),
        sample_event JNull JNull (JStr ''https://d'')]"
proof -
  have ok: "\<forall>e \<in> set
     [sample_event (JStr ''Muster'') (JStr ''2030-01-10T09:00:00'') (JStr ''https://a''),
      sample_event (JStr ''Parade'') (JStr ''2030-01-10T09:00:00'') (JStr ''https://b''),
      sample_event (JStr ''Muster'') (JStr ''2030-01-10T09:00:00'') (JStr ''https://c''),
      sample_event JNull JNull (JStr ''https://d''),
      sample_event JNull JNull (JStr ''https://e'')]. key_ok e"
    by (simp add: key_ok_def sample_event_def)
  show ?thesis
    using conjunct1 [OF deduplicate_first_wins [OF ok]]
    by (simp add: key_of_def sample_event_def)
qed

section \<open>Region searcher\<close>

lemma search_loop_fail:
  assumes "page_fails net hdrs ps"
  shows "search_loop net delay hdrs ps results warnings tr =
           Some (tr @ [NetGet (search_request hdrs ps)],
                 Inr (results, warnings @ [page_warning (location_address ps)
                                             (net (search_request hdrs ps))]))"
  using assms
  by (subst search_loop.simps)
     (auto simp: page_fails_def page_warning_def split: response.splits)

lemma search_loop_end:
  assumes "page_of net hdrs ps = Some (items, False)"
  shows "search_loop net delay hdrs ps results warnings tr =
           Some (tr @ [NetGet (search_request hdrs ps)], Inr (results @ items, warnings))"
  using assms
  by (subst search_loop.simps)
     (auto simp: page_of_def split: response.splits if_splits option.splits sum.splits)

lemma search_loop_continue:
  assumes "page_of net hdrs ps = Some (items, True)" and "0 \<le> delay"
  shows "search_loop net delay hdrs ps results warnings tr =
           search_loop net delay hdrs (ps\<lparr>page := page ps + 1\<rparr>) (results @ items) warnings
             (tr @ [NetGet (search_request hdrs ps), Sleep delay])"
  using assms
  by (subst search_loop.simps)
     (auto simp: page_of_def split: response.splits if_splits option.splits sum.splits)

lemma search_loop_one_step:
  "\<not> page_continues net hdrs ps \<or> delay < 0 \<Longrightarrow>
     \<exists>r. search_loop net delay hdrs ps results warnings tr = Some r"
  by (subst search_loop.simps)
     (auto simp: page_continues_def page_of_def
           split: response.splits if_splits option.splits sum.splits)


lemma page_continues_of:
  "page_continues net hdrs ps \<Longrightarrow> page_of net hdrs ps = Some (page_items net hdrs ps, True)"
  by (auto simp: page_continues_def page_items_def split: option.splits)



lemma page_fails_not_ends: "page_fails net hdrs ps \<Longrightarrow> \<not> page_ends net hdrs ps"
  by (auto simp: page_fails_def page_ends_def page_of_def split: response.splits)


lemma search_loop_terminates:
  "\<not> page_continues net hdrs (ps\<lparr>page := page ps + int k\<rparr>) \<Longrightarrow>
     \<exists>r. search_loop net delay hdrs ps results warnings tr = Some r"
proof (induction k arbitrary: ps results warnings tr)
  case 0
  then have "\<not> page_continues net hdrs ps" by simp
  then show ?case by (intro search_loop_one_step) simp
next
  case (Suc k)
  let ?ps = "ps\<lparr>page := page ps + 1\<rparr>"
  show ?case
  proof (cases "page_continues net hdrs ps \<and> 0 \<le> delay")
    case False
    then show ?thesis by (intro search_loop_one_step) auto
  next
    case True
    have s: "?ps\<lparr>page := page ?ps + int k\<rparr> = ps\<lparr>page := page ps + int (Suc k)\<rparr>"
      by (simp add: algebra_simps)
    from Suc.prems have "\<not> page_continues net hdrs (?ps\<lparr>page := page ?ps + int k\<rparr>)"
      unfolding s .
    from Suc.IH [OF this] show ?thesis
      using search_loop_continue [OF page_continues_of] True by simp
  qed
qed


lemma search_region_loop:
  "search_region net delay hdrs query location within' =
     search_loop net delay hdrs (first_page query location within') [] [] []"
  by (simp add: search_region_def first_page_def)



section \<open>The pipeline of \<^verbatim>\<open>fetch_events\<close>\<close>

lemma filter_upcoming_result:
  assumes "filter_upcoming parse now evs days = Inr r"
  shows "r = filter (in_window parse now (now + days * MICROS_PER_DAY)) evs"
proof -
  from assms obtain cutoff where c: "datetime_add now (days * MICROS_PER_DAY) = Inr cutoff"
    and l: "filter_loop parse now cutoff [] evs = Inr r"
    by (auto simp: filter_upcoming_def ebind_def timedelta_days_def split: sum.splits if_splits)
  from c have "cutoff = now + days * MICROS_PER_DAY"
    by (auto simp: datetime_add_def split: if_splits)
  with filter_loop_result [OF l] show ?thesis by simp
qed

lemma deduplicate_subset: "deduplicate evs = Inr r \<Longrightarrow> set r \<subseteq> set evs"
  using dedup_loop_subset [of "{}" "[]" evs r] by (simp add: deduplicate_def)

lemma fetch_events_success:
  assumes "fetch_events parse now net cfg tok query states_opt within' = Some (tr, Inr payload)"
  shows "\<exists>unique warns.
           payload = success_payload query
                       (case states_opt of None \<Rightarrow> DEFAULT_STATES | Some ss \<Rightarrow> ss)
                       within' unique warns
           \<and> (\<forall>e \<in> set unique.
                 in_window parse now (now + LOOKAHEAD_DAYS cfg * MICROS_PER_DAY) e)"
proof -
  from assms obtain all_raw warns normalized upcoming unique where
    n: "normalize_events all_raw = Inr normalized"
    and f: "filter_upcoming parse now normalized (LOOKAHEAD_DAYS cfg) = Inr upcoming"
    and d: "deduplicate upcoming = Inr unique"
    and p: "payload = success_payload query
                       (case states_opt of None \<Rightarrow> DEFAULT_STATES | Some ss \<Rightarrow> ss)
                       within' unique warns"
    by (auto simp: fetch_events_def Let_def ebind_def
             split: prod.splits sum.splits option.splits)
  from filter_upcoming_result [OF f] deduplicate_subset [OF d]
  have "\<forall>e \<in> set unique. in_window parse now (now + LOOKAHEAD_DAYS cfg * MICROS_PER_DAY) e"
    by auto
  with p show ?thesis by blast
qed

lemma in_window_start:
  "in_window parse now cutoff e \<Longrightarrow>
     \<exists>s t. field e ''start'' = JStr s \<and> s \<noteq> [] \<and> parse s = IsoNaive t \<and> now \<le> t \<and> t \<le> cutoff"
  by (auto simp: in_window_def split: json.splits iso_result.splits)

subsection \<open>A run on the sample network\<close>

lemma sample_montana:
  "search_region net_sample (1 / 2) hdrs qy ''Montana'' w =
     Some ([NetGet (search_request hdrs (first_page qy ''Montana'' w)), Sleep (1 / 2),
            NetGet (search_request hdrs ((first_page qy ''Montana'' w)\<lparr>page := 2\<rparr>))],
           Inr ([raw_event ''Muster'' ''2030-01-10T09:00:00'',
                 raw_event ''Muster'' ''2030-01-10T09:00:00'',
                 raw_event ''Late'' ''2030-03-02T00:00:01''], []))"
proof -
  let ?p = "first_page qy ''Montana'' w"
  have p1: "page_of net_sample hdrs ?p =
              Some ([raw_event ''Muster'' ''2030-01-10T09:00:00'',
                     raw_event ''Muster'' ''2030-01-10T09:00:00''], True)"
    by (simp add: page_of_def net_sample_def search_request_def first_page_def page_content_def
          page_body_def ebind_def py_or_def)
  have p2: "page_of net_sample hdrs (?p\<lparr>page := page ?p + 1\<rparr>) =
              Some ([raw_event ''Late'' ''2030-03-02T00:00:01''], False)"
    by (simp add: page_of_def net_sample_def search_request_def first_page_def page_content_def
          page_body_def ebind_def py_or_def)
  have d: "(0::rat) \<le> 1 / 2" by simp
  show ?thesis
    unfolding search_region_loop search_loop_continue [OF p1 d] search_loop_end [OF p2]
    by (simp add: first_page_def)
qed

lemma sample_wyoming:
  "search_region net_sample delay hdrs qy ''Wyoming'' w =
     Some ([NetGet (search_request hdrs (first_page qy ''Wyoming'' w))],
           Inr ([], [''rate_limited_http_429:Wyoming:slow down'']))"
proof -
  have f: "page_fails net_sample hdrs (first_page qy ''Wyoming'' w)"
    by (simp add: page_fails_def net_sample_def search_request_def first_page_def)
  show ?thesis
    unfolding search_region_loop search_loop_fail [OF f]
    by (simp add: page_warning_def net_sample_def search_request_def first_page_def)
qed

lemma sample_normalize:
  "normalize_events [raw_event ''Muster'' ''2030-01-10T09:00:00'',
                     raw_event ''Muster'' ''2030-01-10T09:00:00'',
                     raw_event ''Late'' ''2030-03-02T00:00:01''] =
     Inr [sample_flat ''Muster'' ''2030-01-10T09:00:00'',
          sample_flat ''Muster'' ''2030-01-10T09:00:00'',
          sample_flat ''Late'' ''2030-03-02T00:00:01'']"
  by (simp add: normalize_events_eq raw_event_ok_def nested_ok_def raw_event_def flat_event_def
        sample_flat_def)

lemma sample_filter:
  "filter_upcoming sample_parse sample_now
     [sample_flat ''Muster'' ''2030-01-10T09:00:00'',
      sample_flat ''Muster'' ''2030-01-10T09:00:00'',
      sample_flat ''Late'' ''2030-03-02T00:00:01''] 60 =
   Inr [sample_flat ''Muster'' ''2030-01-10T09:00:00'',
        sample_flat ''Muster'' ''2030-01-10T09:00:00'']"
  by (simp add: filter_upcoming_def ebind_def timedelta_days_def datetime_add_def
        MICROS_PER_DAY_def DATETIME_MAX_def sample_now_def sample_flat_def sample_parse_def)

lemma sample_dedup:
  "deduplicate [sample_flat ''Muster'' ''2030-01-10T09:00:00'',
                sample_flat ''Muster'' ''2030-01-10T09:00:00''] =
   Inr [sample_flat ''Muster'' ''2030-01-10T09:00:00'']"
  by (simp add: deduplicate_def event_key_def sample_flat_def ebind_def)

lemma sample_validate:
  "validate_token net_sample hdrs = ([NetGet (identity_request hdrs)], Inr ())"
  by (simp add: validate_token_def net_sample_def identity_request_def)

lemma sample_fetch:
  assumes "PAGE_DELAY_SEC cfg = 1 / 2" and "LOOKAHEAD_DAYS cfg = 60"
  shows "fetch_events sample_parse sample_now net_sample cfg tok qy None w =
     Some ([NetGet (identity_request (run_headers cfg tok)),
            NetGet (search_request (run_headers cfg tok) (first_page qy ''Montana'' w)),
            Sleep (1 / 2),
            NetGet (search_request (run_headers cfg tok)
                      ((first_page qy ''Montana'' w)\<lparr>page := 2\<rparr>)),
            NetGet (search_request (run_headers cfg tok) (first_page qy ''Wyoming'' w))],
           Inr (success_payload qy [''Montana'', ''Wyoming''] w
                  [sample_flat ''Muster'' ''2030-01-10T09:00:00'']
                  [''rate_limited_http_429:Wyoming:slow down'']))"
  by (simp add: fetch_events_def Let_def sample_validate
        DEFAULT_STATES_def assms sample_montana sample_wyoming sample_normalize sample_filter
        sample_dedup ebind_def)

subsection \<open>What a success payload holds\<close>

text \<open>
  C9. Whenever \<^verbatim>\<open>fetch_events\<close> returns a payload, it is a success payload whose
  \<^verbatim>\<open>count\<close> is the length of its \<^verbatim>\<open>events\<close>, and every event in it has a start
  that is a non-empty string, parses to a naive time and lies between the clock and the
  cutoff: the deduplicator only sees what the window filter let through. So no event
  with an absent start, and no pair of events both missing name and start, reaches the
  output.
\<close>

theorem success_payload_in_window:
  assumes "fetch_events parse now net cfg tok query states_opt within' = Some (tr, Inr payload)"
  shows "\<exists>unique.
           field payload ''generated'' = JBool True
           \<and> field payload ''events'' = JArr unique
           \<and> field payload ''count'' = JNum (of_nat (length unique))
           \<and> (\<forall>e \<in> set unique.
                 \<exists>s t. field e ''start'' = JStr s \<and> s \<noteq> [] \<and> parse s = IsoNaive t
                       \<and> now \<le> t \<and> t \<le> now + LOOKAHEAD_DAYS cfg * MICROS_PER_DAY)
           \<and> (\<forall>e \<in> set unique. field e ''start'' \<noteq> JNull)"
proof -
  from fetch_events_success [OF assms] obtain unique warns where
    p: "payload = success_payload query
                       (case states_opt of None \<Rightarrow> DEFAULT_STATES | Some ss \<Rightarrow> ss)
                       within' unique warns"
    and w: "\<forall>e \<in> set unique.
                 in_window parse now (now + LOOKAHEAD_DAYS cfg * MICROS_PER_DAY) e"
    by blast
  have s: "\<forall>e \<in> set unique.
             \<exists>s t. field e ''start'' = JStr s \<and> s \<noteq> [] \<and> parse s = IsoNaive t
                   \<and> now \<le> t \<and> t \<le> now + LOOKAHEAD_DAYS cfg * MICROS_PER_DAY"
    using w in_window_start by blast
  then have "\<forall>e \<in> set unique. field e ''start'' \<noteq> JNull" by fastforce
  with s p show ?thesis
    by (intro exI [of _ unique]) (simp add: success_payload_def)
qed


theorem success_payload_in_window_witness:
  "fetch_events sample_parse sample_now net_sample sample_cfg ''abc'' ''veteran'' None ''500mi'' =
     Some ([NetGet (identity_request (run_headers sample_cfg ''abc'')),
            NetGet (search_request (run_headers sample_cfg ''abc'')
                      (first_page ''veteran'' ''Montana'' ''500mi'')),
            Sleep (1 / 2),
            NetGet (search_request (run_headers sample_cfg ''abc'')
                      ((first_page ''veteran'' ''Montana'' ''500mi'')\<lparr>page := 2\<rparr>)),
            NetGet (search_request (run_headers sample_cfg ''abc'')
                      (first_page ''veteran'' ''Wyoming'' ''500mi''))],
           Inr (success_payload ''veteran'' [''Montana'', ''Wyoming''] ''500mi''
                  [sample_flat ''Muster'' ''2030-01-10T09:00:00'']
                  [''rate_limited_http_429:Wyoming:slow down'']))
   \<and> field (success_payload ''veteran'' [''Montana'', ''Wyoming''] ''500mi''
               [sample_flat ''Muster'' ''2030-01-10T09:00:00'']
               [''rate_limited_http_429:Wyoming:slow down'']) ''count'' = JNum 1
   \<and> field (sample_flat ''Muster'' ''2030-01-10T09:00:00'') ''start''
       = JStr ''2030-01-10T09:00:00''
   \<and> sample_parse ''2030-01-10T09:00:00'' = IsoNaive 64029862800000000
   \<and> sample_now \<le> 64029862800000000
   \<and> 64029862800000000 \<le> sample_now + 60 * MICROS_PER_DAY"
proof -
  have d: "PAGE_DELAY_SEC sample_cfg = 1 / 2" and c: "LOOKAHEAD_DAYS sample_cfg = 60"
    by (simp_all add: sample_cfg_def)
  note f = sample_fetch [OF d c, of "''abc''" "''veteran''" "''500mi''"]
  from success_payload_in_window [OF f] obtain unique where
    u: "field (success_payload ''veteran'' [''Montana'', ''Wyoming''] ''500mi''
               [sample_flat ''Muster'' ''2030-01-10T09:00:00'']
               [''rate_limited_http_429:Wyoming:slow down'']) ''events'' = JArr unique"
    and n: "field (success_payload ''veteran'' [''Montana'', ''Wyoming''] ''500mi''
               [sample_flat ''Muster'' ''2030-01-10T09:00:00'']
               [''rate_limited_http_429:Wyoming:slow down'']) ''count''
             = JNum (of_nat (length unique))"
    and w: "\<forall>e \<in> set unique.
              \<exists>s t. field e ''start'' = JStr s \<and> s \<noteq> [] \<and> sample_parse s = IsoNaive t
                    \<and> sample_now \<le> t \<and> t \<le> sample_now + LOOKAHEAD_DAYS sample_cfg * MICROS_PER_DAY"
    by blast
  from u have e: "unique = [sample_flat ''Muster'' ''2030-01-10T09:00:00'']"
    by (simp add: success_payload_def)
  have s: "field (sample_flat ''Muster'' ''2030-01-10T09:00:00'') ''start''
       = JStr ''2030-01-10T09:00:00''"
    by (simp add: sample_flat_def)
  have p: "sample_parse ''2030-01-10T09:00:00'' = IsoNaive 64029862800000000"
    by (simp add: sample_parse_def)
  from w e s p c have "sample_now \<le> 64029862800000000
      \<and> 64029862800000000 \<le> sample_now + 60 * MICROS_PER_DAY"
    by auto
  with f n e s p show ?thesis by simp
qed

section \<open>Orchestrator\<close>

lemma file_after_append:
  "file_after (xs @ ys) path =
     (case file_after ys path of Some c \<Rightarrow> Some c | None \<Rightarrow> file_after xs path)"
  by (induction xs) (auto split: option.splits)

lemma search_region_terminates:
  assumes "\<not> page_continues net hdrs ((first_page query state within')\<lparr>page := 1 + int k\<rparr>)"
  shows "\<exists>r. search_region net delay hdrs query state within' = Some r"
proof -
  have "page (first_page query state within') = 1" by (simp add: first_page_def)
  with assms have "\<not> page_continues net hdrs
      ((first_page query state within')\<lparr>page := page (first_page query state within') + int k\<rparr>)"
    by simp
  from search_loop_terminates [OF this] show ?thesis
    unfolding search_region_loop by blast
qed

lemma regions_loop_terminates:
  "\<forall>state \<in> set states. \<exists>k. \<not> page_continues net hdrs
       ((first_page query state within')\<lparr>page := 1 + int k\<rparr>) \<Longrightarrow>
   \<exists>r. regions_loop net delay hdrs query within' states all_raw all_warnings tr = Some r"
proof (induction states arbitrary: all_raw all_warnings tr)
  case Nil
  then show ?case by simp
next
  case (Cons state states)
  then obtain k where "\<not> page_continues net hdrs
       ((first_page query state within')\<lparr>page := 1 + int k\<rparr>)" by auto
  from search_region_terminates [OF this] obtain tr' r
    where s: "search_region net delay hdrs query state within' = Some (tr', r)" by fastforce
  from Cons.prems have rest: "\<forall>state \<in> set states. \<exists>k. \<not> page_continues net hdrs
       ((first_page query state within')\<lparr>page := 1 + int k\<rparr>)" by simp
  show ?case
  proof (cases r)
    case (Inl x)
    with s show ?thesis by simp
  next
    case (Inr p)
    obtain events warns where "p = (events, warns)" by (cases p)
    with s Inr Cons.IH [OF rest] show ?thesis by simp
  qed
qed

lemma fetch_events_terminates:
  assumes "\<forall>state \<in> set (case states_opt of None \<Rightarrow> DEFAULT_STATES | Some ss \<Rightarrow> ss).
             \<exists>k. \<not> page_continues net (run_headers cfg tok)
                    ((first_page query state within')\<lparr>page := 1 + int k\<rparr>)"
  shows "\<exists>r. fetch_events parse now net cfg tok query states_opt within' = Some r"
proof -
  obtain tr0 v where v: "validate_token net (run_headers cfg tok) = (tr0, v)"
    by (cases "validate_token net (run_headers cfg tok)")
  from regions_loop_terminates [OF assms] obtain tr1 r where
    "regions_loop net (PAGE_DELAY_SEC cfg) (run_headers cfg tok) query within'
       (case states_opt of None \<Rightarrow> DEFAULT_STATES | Some ss \<Rightarrow> ss) [] [] tr0 = Some (tr1, r)"
    by fastforce
  with v show ?thesis
    by (cases v; cases r)
       (auto simp: fetch_events_def Let_def split: prod.splits)
qed

lemma on_exception_eq:
  "on_exception py_str exc_msg cfg tr x =
     (tr @ [MakeDirs ''.'',
            WriteFile ''events.json''
              (JsonDump (JObj [(''generated'', JBool False), (''error'', JStr (str_exc exc_msg x))])),
            WriteFile ''events.md'' (PlainText (no_events_text (LOOKAHEAD_DAYS cfg))),
            PrintErr (''Error: '' @ str_exc exc_msg x)],
      Returns 1)"
  by (simp add: on_exception_def save_markdown_empty save_json_out failure_payload_def
        OUT_JSON_def OUT_MD_def no_events_text_def)

lemma files_after_exception:
  "file_after (fst (on_exception py_str exc_msg cfg tr x)) ''events.json'' =
     Some (JsonDump (JObj [(''generated'', JBool False), (''error'', JStr (str_exc exc_msg x))]))"
  "file_after (fst (on_exception py_str exc_msg cfg tr x)) ''events.md'' =
     Some (PlainText (no_events_text (LOOKAHEAD_DAYS cfg)))"
  by (simp_all add: on_exception_eq file_after_append)

lemma on_payload_returns:
  assumes "on_payload py_str cfg payload = (trp, Inr n)"
  shows "n = 0 \<and> (\<exists>md c. trp = [Print (''Fetched '' @ fmt py_str c @ '' events.''), MakeDirs ''.'',
                               WriteFile ''events.json'' (JsonDump payload),
                               WriteFile ''events.md'' (PlainText md)])"
  using assms
  by (auto simp: on_payload_def save_markdown_def save_json_out OUT_JSON_def OUT_MD_def
           split: sum.splits prod.splits)


lemma sample_markdown:
  "save_markdown sample_py_str 60 (JArr [sample_flat ''Muster'' ''2030-01-10T09:00:00'']) ''events.md'' =
     ([WriteFile ''events.md''
         (PlainText (''# Upcoming Veteran Events in Montana and Wyoming'' @ [NL] @ [NL]
            @ ''## Muster'' @ [NL] @ [NL]
            @ ''- **Date:** 2030-01-10 09:00:00'' @ [NL] @ [NL]))], Inr ())"
  by (simp add: save_markdown_def markdown_lines_def event_lines_def sample_flat_def ebind_def
        py_or_def loc_parts_def start_format_def fmt_def Let_def)

lemma sample_terminates:
  "\<forall>state \<in> set DEFAULT_STATES.
     \<exists>k. \<not> page_continues net_sample hdrs ((first_page qy state w)\<lparr>page := 1 + int k\<rparr>)"
proof -
  have m: "\<not> page_continues net_sample hdrs ((first_page qy ''Montana'' w)\<lparr>page := 1 + int 1\<rparr>)"
    by (simp add: page_continues_def page_of_def net_sample_def search_request_def first_page_def
          page_content_def page_body_def ebind_def py_or_def)
  have y: "\<not> page_continues net_sample hdrs ((first_page qy ''Wyoming'' w)\<lparr>page := 1 + int 0\<rparr>)"
    by (simp add: page_continues_def page_of_def net_sample_def search_request_def first_page_def)
  from m y show ?thesis
    unfolding DEFAULT_STATES_def by (metis insert_iff list.simps(15) empty_iff empty_set)
qed

text \<open>
  C8. Take a run with a credential (set and not empty) in which the pagination of each
  region reaches a page that does not announce more items, so that the \<^verbatim>\<open>try\<close> body
  ends. If the body ends with an exception, raised by token validation or anywhere
  later, \<^verbatim>\<open>main\<close> returns 1, the structured file holds the failure payload with the
  text of the exception and the narrative file holds the "no events" report. If it ends
  without one, \<^verbatim>\<open>main\<close> returns 0, the structured file holds the success payload that
  \<^verbatim>\<open>fetch_events\<close> returned and the narrative file has been written. Both files are
  written in either case.
\<close>

theorem main_exit_codes:
  assumes "token cfg = Some t" and "t \<noteq> []"
    and "\<forall>state \<in> set DEFAULT_STATES.
           \<exists>k. \<not> page_continues net (run_headers cfg t)
                  ((first_page (DEFAULT_QUERY cfg) state (DEFAULT_WITHIN cfg))\<lparr>page := 1 + int k\<rparr>)"
  shows "\<exists>tr r. try_body parse py_str now net cfg t = Some (tr, r) \<and>
           (case r of
              Inl x \<Rightarrow>
                (\<exists>tr'. main parse py_str exc_msg now net cfg = Some (tr', Returns 1)
                   \<and> file_after tr' ''events.json'' =
                       Some (JsonDump (JObj [(''generated'', JBool False),
                                             (''error'', JStr (str_exc exc_msg x))]))
                   \<and> file_after tr' ''events.md'' =
                       Some (PlainText (no_events_text (LOOKAHEAD_DAYS cfg))))
            | Inr n \<Rightarrow>
                main parse py_str exc_msg now net cfg = Some (tr, Returns 0)
                \<and> (\<exists>trf payload md.
                      fetch_events parse now net cfg t (DEFAULT_QUERY cfg) None (DEFAULT_WITHIN cfg)
                        = Some (trf, Inr payload)
                      \<and> field payload ''generated'' = JBool True
                      \<and> file_after tr ''events.json'' = Some (JsonDump payload)
                      \<and> file_after tr ''events.md'' = Some (PlainText md)))"
proof -
  have g: "get_token py_str cfg = ([], Returns t)"
    using assms(1,2) by (simp add: get_token_def)
  from assms(3) have "\<forall>state \<in> set (case None of None \<Rightarrow> DEFAULT_STATES | Some ss \<Rightarrow> ss).
        \<exists>k. \<not> page_continues net (run_headers cfg t)
               ((first_page (DEFAULT_QUERY cfg) state (DEFAULT_WITHIN cfg))\<lparr>page := 1 + int k\<rparr>)"
    by simp
  from fetch_events_terminates [OF this] obtain trf fr where
    f: "fetch_events parse now net cfg t (DEFAULT_QUERY cfg) None (DEFAULT_WITHIN cfg)
          = Some (trf, fr)"
    by fastforce
  show ?thesis
  proof (cases fr)
    case (Inl x)
    with f have tb: "try_body parse py_str now net cfg t =
        Some ([Print ''Token acquired; starting fetch...''] @ trf, Inl x)"
      by (simp add: try_body_def)
    then have m: "main parse py_str exc_msg now net cfg =
        Some (on_exception py_str exc_msg cfg
                ([] @ [Print ''Token acquired; starting fetch...''] @ trf) x)"
      by (simp add: main_def g)
    show ?thesis
      using tb m files_after_exception
        [of py_str exc_msg cfg "[] @ [Print ''Token acquired; starting fetch...''] @ trf" x]
      by (simp add: on_exception_eq)
  next
    case (Inr payload)
    obtain trp pr where op: "on_payload py_str cfg payload = (trp, pr)"
      by (cases "on_payload py_str cfg payload")
    with f Inr have tb: "try_body parse py_str now net cfg t =
        Some ([Print ''Token acquired; starting fetch...''] @ trf @ trp, pr)"
      by (simp add: try_body_def)
    show ?thesis
    proof (cases pr)
      case (Inl x)
      with tb have m: "main parse py_str exc_msg now net cfg =
        Some (on_exception py_str exc_msg cfg
                ([] @ [Print ''Token acquired; starting fetch...''] @ trf @ trp) x)"
        by (simp add: main_def g)
      show ?thesis
        using tb m Inl files_after_exception
          [of py_str exc_msg cfg "[] @ [Print ''Token acquired; starting fetch...''] @ trf @ trp" x]
        by (simp add: on_exception_eq)
    next
      case r: (Inr n)
      from on_payload_returns [OF op [unfolded r]] obtain md c where
        n: "n = 0" and trp: "trp = [Print (''Fetched '' @ fmt py_str c @ '' events.''), MakeDirs ''.'',
                               WriteFile ''events.json'' (JsonDump payload),
                               WriteFile ''events.md'' (PlainText md)]"
        by blast
      from fetch_events_success [OF f [unfolded Inr]] have gen: "field payload ''generated'' = JBool True"
        by (auto simp: success_payload_def)
      from tb r n have m: "main parse py_str exc_msg now net cfg =
          Some ([Print ''Token acquired; starting fetch...''] @ trf @ trp, Returns 0)"
        by (simp add: main_def g)
      have fj: "file_after ([Print ''Token acquired; starting fetch...''] @ trf @ trp) ''events.json''
                  = Some (JsonDump payload)"
        and fm: "file_after ([Print ''Token acquired; starting fetch...''] @ trf @ trp) ''events.md''
                  = Some (PlainText md)"
        by (simp_all add: trp file_after_append)
      show ?thesis
        using tb m r f Inr gen fj fm by auto
    qed
  qed
qed


theorem main_exit_codes_witness:
  "(\<exists>tr. main sample_parse sample_py_str sample_exc_msg sample_now net_sample sample_run_cfg
           = Some (tr, Returns 0)
       \<and> file_after tr ''events.json'' =
           Some (JsonDump (success_payload ''veteran OR veterans OR military OR service member''
                             [''Montana'', ''Wyoming''] ''500mi''
                             [sample_flat ''Muster'' ''2030-01-10T09:00:00'']
                             [''rate_limited_http_429:Wyoming:slow down'']))
       \<and> file_after tr ''events.md'' =
           Some (PlainText (''# Upcoming Veteran Events in Montana and Wyoming'' @ [NL] @ [NL]
                   @ ''## Muster'' @ [NL] @ [NL]
                   @ ''- **Date:** 2030-01-10 09:00:00'' @ [NL] @ [NL])))
   \<and> (\<exists>tr. main sample_parse sample_py_str sample_exc_msg sample_now net_401 sample_run_cfg
           = Some (tr, Returns 1)
       \<and> file_after tr ''events.json'' =
           Some (JsonDump (JObj [(''generated'', JBool False),
                                 (''error'', JStr (''token_invalid_or_forbidden:http_401:''
                                                    @ replicate 256 CHR ''x''))]))
       \<and> file_after tr ''events.md'' =
           Some (PlainText (''# Upcoming Veteran Events in Montana and Wyoming'' @ [NL] @ [NL]
                   @ ''No events found within the next 60 days.'' @ [NL])))"
proof -
  have c: "token sample_run_cfg = Some ''abc''" "''abc'' \<noteq> []"
    "PAGE_DELAY_SEC sample_run_cfg = 1 / 2" "LOOKAHEAD_DAYS sample_run_cfg = 60"
    "DEFAULT_QUERY sample_run_cfg = ''veteran OR veterans OR military OR service member''"
    "DEFAULT_WITHIN sample_run_cfg = ''500mi''"
    by (simp_all add: sample_run_cfg_def sample_cfg_def)
  note f = sample_fetch [OF c(3,4), of "''abc''"
      "''veteran OR veterans OR military OR service member''" "''500mi''"]
  have tb: "\<exists>tr. try_body sample_parse sample_py_str sample_now net_sample sample_run_cfg ''abc''
              = Some (tr, Inr 0)
            \<and> file_after tr ''events.md'' =
                 Some (PlainText (''# Upcoming Veteran Events in Montana and Wyoming'' @ [NL] @ [NL]
                   @ ''## Muster'' @ [NL] @ [NL]
                   @ ''- **Date:** 2030-01-10 09:00:00'' @ [NL] @ [NL]))"
    by (simp add: try_body_def c f on_payload_def success_payload_def sample_markdown OUT_MD_def
          file_after_append)
  from main_exit_codes [OF c(1,2) sample_terminates,
      of sample_parse sample_py_str sample_now sample_exc_msg] tb
  have ok: "\<exists>tr. main sample_parse sample_py_str sample_exc_msg sample_now net_sample sample_run_cfg
           = Some (tr, Returns 0)
       \<and> file_after tr ''events.json'' =
           Some (JsonDump (success_payload ''veteran OR veterans OR military OR service member''
                             [''Montana'', ''Wyoming''] ''500mi''
                             [sample_flat ''Muster'' ''2030-01-10T09:00:00'']
                             [''rate_limited_http_429:Wyoming:slow down'']))
       \<and> file_after tr ''events.md'' =
           Some (PlainText (''# Upcoming Veteran Events in Montana and Wyoming'' @ [NL] @ [NL]
                   @ ''## Muster'' @ [NL] @ [NL]
                   @ ''- **Date:** 2030-01-10 09:00:00'' @ [NL] @ [NL]))"
    by (auto simp: c f)

  have c2: "token sample_run_cfg = Some ''abc''" "''abc'' \<noteq> []"
    "LOOKAHEAD_DAYS sample_run_cfg = 60"
    by (simp_all add: sample_run_cfg_def sample_cfg_def)
  have t: "\<forall>state \<in> set DEFAULT_STATES.
     \<exists>k. \<not> page_continues net_401 (run_headers sample_run_cfg ''abc'')
            ((first_page (DEFAULT_QUERY sample_run_cfg) state (DEFAULT_WITHIN sample_run_cfg))
               \<lparr>page := 1 + int k\<rparr>)"
    by (simp add: page_continues_def page_of_def net_401_def)
  have tb2: "try_body sample_parse sample_py_str sample_now net_401 sample_run_cfg ''abc'' =
      Some ([Print ''Token acquired; starting fetch...'',
             NetGet (identity_request (run_headers sample_run_cfg ''abc''))],
            Inl (RuntimeError (''token_invalid_or_forbidden:http_401:'' @ replicate 256 CHR ''x'')))"
    by (simp add: try_body_def fetch_events_def validate_token_def net_401_def str_int_401)
  from main_exit_codes [OF c2(1,2) t, of sample_parse sample_py_str sample_now sample_exc_msg] tb2
  have ko: "\<exists>tr. main sample_parse sample_py_str sample_exc_msg sample_now net_401 sample_run_cfg
           = Some (tr, Returns 1)
       \<and> file_after tr ''events.json'' =
           Some (JsonDump (JObj [(''generated'', JBool False),
                                 (''error'', JStr (''token_invalid_or_forbidden:http_401:''
                                                    @ replicate 256 CHR ''x''))]))
       \<and> file_after tr ''events.md'' =
           Some (PlainText (''# Upcoming Veteran Events in Montana and Wyoming'' @ [NL] @ [NL]
                   @ ''No events found within the next 60 days.'' @ [NL]))"
    by (auto simp: c2 str_exc_def no_events_text_def str_int_60)
  from ok ko show ?thesis by blast
qed

section \<open>Region searcher: failures\<close>













end
